theory Spec2Isabelle
  imports Main "HOL-Library.Sublist"
begin

section \<open>Strings of the host language\<close>

text \<open>
  The extraction engine of the job-posting form (\<^verbatim>\<open>analyzeJobDescription\<close>) and the form
  handlers around it (\<^verbatim>\<open>handleAnalyzeJD\<close>, \<^verbatim>\<open>handleSubmit\<close>, the \<^verbatim>\<open>onChange\<close> handlers)
  work on JavaScript strings. A document is modelled as a \<^typ>\<open>string\<close>, one \<^typ>\<open>char\<close> per
  code unit, for the code units below 256 (Basic Latin and Latin-1); code units from 256
  on are outside the model. The letters, digits and separators the patterns and
  vocabularies of the source mention are all ASCII.
\<close>

definition isUpperChar :: "char \<Rightarrow> bool" where
  "isUpperChar c = (65 \<le> (of_char c :: nat) \<and> (of_char c :: nat) \<le> 90)"

definition isLowerChar :: "char \<Rightarrow> bool" where
  "isLowerChar c = (97 \<le> (of_char c :: nat) \<and> (of_char c :: nat) \<le> 122)"

definition isDigitChar :: "char \<Rightarrow> bool" where
  "isDigitChar c = (48 \<le> (of_char c :: nat) \<and> (of_char c :: nat) \<le> 57)"

text \<open>White space as \<^verbatim>\<open>\s\<close> and \<^verbatim>\<open>trim\<close> see it: tab, line feed, vertical tab, form feed,
  carriage return, space and the no-break space U+00A0.\<close>

definition isSpaceChar :: "char \<Rightarrow> bool" where
  "isSpaceChar c =
     ((9 \<le> (of_char c :: nat) \<and> (of_char c :: nat) \<le> 13) \<or> (of_char c :: nat) = 32 \<or>
      (of_char c :: nat) = 160)"

definition isLineTerminator :: "char \<Rightarrow> bool" where
  "isLineTerminator c = ((of_char c :: nat) = 10 \<or> (of_char c :: nat) = 13)"

text \<open>The capital letters of Latin-1, U+00C0 to U+00DE without the multiplication sign.\<close>

definition isLatin1Upper :: "char \<Rightarrow> bool" where
  "isLatin1Upper c =
     (192 \<le> (of_char c :: nat) \<and> (of_char c :: nat) \<le> 222 \<and> (of_char c :: nat) \<noteq> 215)"

text \<open>\<^verbatim>\<open>toLowerCase\<close> on one code unit: a capital letter, of ASCII or of Latin-1, moves up
  by 32.\<close>

definition lowerChar :: "char \<Rightarrow> char" where
  "lowerChar c = (if isUpperChar c \<or> isLatin1Upper c then char_of ((of_char c :: nat) + 32) else c)"

text \<open>\<^verbatim>\<open>toUpperCase\<close> on one code unit, for ASCII. The source upper-cases only the first
  character of a word of a capture (letters of \<^verbatim>\<open>[a-z]\<close>, white space and commas) or of a
  keyword of its vocabularies, and the matcher compares upper-cased characters with the
  ASCII characters of the patterns only, which no character above 127 equals before or
  after upper-casing; on all of these the mapping below is the one of the source.\<close>

definition upperChar :: "char \<Rightarrow> char" where
  "upperChar c = (if isLowerChar c then char_of ((of_char c :: nat) - 32) else c)"

definition toLowerCase :: "string \<Rightarrow> string" where
  "toLowerCase s = map lowerChar s"

definition toUpperCase :: "string \<Rightarrow> string" where
  "toUpperCase s = map upperChar s"

text \<open>\<^verbatim>\<open>s.startsWith(t)\<close> and \<^verbatim>\<open>s.includes(t)\<close>: plain substring containment.\<close>

fun startsWith :: "string \<Rightarrow> string \<Rightarrow> bool" where
  "startsWith s [] = True"
| "startsWith [] (y # ys) = False"
| "startsWith (x # xs) (y # ys) = (x = y \<and> startsWith xs ys)"

fun str_includes :: "string \<Rightarrow> string \<Rightarrow> bool" where
  "str_includes [] t = (t = [])"
| "str_includes (x # xs) t = (startsWith (x # xs) t \<or> str_includes xs t)"

text \<open>\<^verbatim>\<open>s.trim()\<close>.\<close>

definition trim :: "string \<Rightarrow> string" where
  "trim s = rev (dropWhile isSpaceChar (rev (dropWhile isSpaceChar s)))"

text \<open>\<^verbatim>\<open>s.split(' ')\<close>: the pieces between single spaces; the empty string splits into one
  empty piece, two spaces in a row give an empty piece.\<close>

fun split_space :: "string \<Rightarrow> string list" where
  "split_space [] = [[]]"
| "split_space (c # cs) =
     (if c = CHR '' '' then [] # split_space cs
      else (case split_space cs of [] \<Rightarrow> [[c]] | w # ws \<Rightarrow> (c # w) # ws))"

text \<open>\<^verbatim>\<open>ws.join(sep)\<close>.\<close>

fun join :: "string \<Rightarrow> string list \<Rightarrow> string" where
  "join sep [] = []"
| "join sep [w] = w"
| "join sep (w # v # ws) = w @ sep @ join sep (v # ws)"

text \<open>\<^verbatim>\<open>s.replace(/\s+/g, ' ')\<close>: every maximal run of white space becomes one space.\<close>

fun collapse_from :: "bool \<Rightarrow> string \<Rightarrow> string" where
  "collapse_from inRun [] = []"
| "collapse_from inRun (c # cs) =
     (if isSpaceChar c then (if inRun then collapse_from True cs else CHR '' '' # collapse_from True cs)
      else c # collapse_from False cs)"

definition collapse_spaces :: "string \<Rightarrow> string" where
  "collapse_spaces s = collapse_from False s"

text \<open>\<^verbatim>\<open>w.charAt(0).toUpperCase() + w.slice(1)\<close>; the empty word stays empty.\<close>

fun capitalize :: "string \<Rightarrow> string" where
  "capitalize [] = []"
| "capitalize (c # cs) = upperChar c # cs"

text \<open>\<^verbatim>\<open>w.charAt(0).toUpperCase() + w.slice(1).toLowerCase()\<close>.\<close>

fun capitalize_lower :: "string \<Rightarrow> string" where
  "capitalize_lower [] = []"
| "capitalize_lower (c # cs) = upperChar c # toLowerCase cs"

subsection \<open>Numbers\<close>

text \<open>
  A JavaScript number is modelled as an unbounded integer or \<^verbatim>\<open>NaN\<close>; the values the form
  handles (head counts, monthly amounts) are integers, exact in the source as long as they
  stay below \<open>2^53\<close>.
\<close>

datatype number = NaN | Num int

definition digitValue :: "char \<Rightarrow> int" where
  "digitValue c = int (of_char c) - 48"

text \<open>The value of a run of decimal digits, most significant first.\<close>

fun digitsValue :: "int \<Rightarrow> string \<Rightarrow> int" where
  "digitsValue acc [] = acc"
| "digitsValue acc (c # cs) = digitsValue (acc * 10 + digitValue c) cs"

text \<open>\<^verbatim>\<open>parseInt(s, 10)\<close>: leading white space is skipped, one sign is read, then the longest
  run of decimal digits; no digit at all gives \<^verbatim>\<open>NaN\<close>.\<close>

definition parseDigits :: "string \<Rightarrow> number" where
  "parseDigits s =
     (case takeWhile isDigitChar s of [] \<Rightarrow> NaN | d # ds \<Rightarrow> Num (digitsValue 0 (d # ds)))"

definition parseInt :: "string \<Rightarrow> number" where
  "parseInt s =
     (case dropWhile isSpaceChar s of
        [] \<Rightarrow> NaN
      | c # cs \<Rightarrow>
          if c = CHR ''-'' then (case parseDigits cs of NaN \<Rightarrow> NaN | Num n \<Rightarrow> Num (- n))
          else if c = CHR ''+'' then parseDigits cs
          else parseDigits (c # cs))"

text \<open>\<^verbatim>\<open>n.toString()\<close> for an integer.\<close>

fun natDigits :: "nat \<Rightarrow> string" where
  "natDigits n = (if n < 10 then [char_of (48 + n)] else natDigits (n div 10) @ [char_of (48 + n mod 10)])"

definition numberToString :: "number \<Rightarrow> string" where
  "numberToString x =
     (case x of NaN \<Rightarrow> ''NaN''
      | Num n \<Rightarrow> if n < 0 then CHR ''-'' # natDigits (nat (- n)) else natDigits (nat n))"

text \<open>Truthiness of a number (\<^verbatim>\<open>if (n)\<close>, \<^verbatim>\<open>n || d\<close>): neither \<^verbatim>\<open>NaN\<close> nor zero.\<close>

definition truthyNumber :: "number \<Rightarrow> bool" where
  "truthyNumber x = (case x of NaN \<Rightarrow> False | Num n \<Rightarrow> n \<noteq> 0)"

text \<open>\<^verbatim>\<open>Math.min(x, 100)\<close> and \<^verbatim>\<open>x * 1000\<close>; both keep \<^verbatim>\<open>NaN\<close>.\<close>

definition minNumber :: "number \<Rightarrow> int \<Rightarrow> number" where
  "minNumber x m = (case x of NaN \<Rightarrow> NaN | Num n \<Rightarrow> Num (min n m))"

definition timesNumber :: "number \<Rightarrow> int \<Rightarrow> number" where
  "timesNumber x m = (case x of NaN \<Rightarrow> NaN | Num n \<Rightarrow> Num (n * m))"

section \<open>Regular expressions\<close>

text \<open>
  The patterns of the extractor are regular-expression literals. They are kept as syntax
  trees and run by a backtracking matcher in continuation-passing style, the way the
  language standard defines matching: a matcher takes the state reached so far and a
  continuation for the rest of the pattern, and alternatives are tried in the order the
  pattern writes them. No capture group of the patterns stands inside a repetition that
  can run more than once, so captures are never reset.
\<close>

datatype citem = CChar char | CRange char char | CSpace | CDigit

datatype regex =
    RLit string
  | RClass "citem list"
  | RSeq regex regex
  | RAlt regex regex
  | RStar regex
  | RLazyStar regex
  | RGroup nat regex
  | RBol
  | REol

text \<open>The flags of a pattern: \<^verbatim>\<open>i\<close> and \<^verbatim>\<open>m\<close>.\<close>

datatype flags = Flags (ignoreCase: bool) (multiline: bool)

text \<open>The state of a match: the character before the current position, the input still
  ahead, the index of the current position and the captures closed so far.\<close>

datatype mstate = MState (lastChar: "char option") (ahead: string) (endIndex: nat)
  (captures: "(nat \<times> string) list")

type_synonym continuation = "mstate \<Rightarrow> mstate option"

definition canonicalize :: "bool \<Rightarrow> char \<Rightarrow> char" where
  "canonicalize ic c = (if ic then upperChar c else c)"

fun item_matches :: "bool \<Rightarrow> char \<Rightarrow> citem \<Rightarrow> bool" where
  "item_matches ic c (CChar d) = (canonicalize ic c = canonicalize ic d)"
| "item_matches ic c (CRange lo hi) =
     (((of_char lo :: nat) \<le> of_char c \<and> (of_char c :: nat) \<le> of_char hi) \<or>
      (ic \<and> (((of_char lo :: nat) \<le> of_char (lowerChar c) \<and> (of_char (lowerChar c) :: nat) \<le> of_char hi) \<or>
             ((of_char lo :: nat) \<le> of_char (upperChar c) \<and> (of_char (upperChar c) :: nat) \<le> of_char hi))))"
| "item_matches ic c CSpace = isSpaceChar c"
| "item_matches ic c CDigit = isDigitChar c"

fun class_matches :: "bool \<Rightarrow> citem list \<Rightarrow> char \<Rightarrow> bool" where
  "class_matches ic [] c = False"
| "class_matches ic (i # is) c = (item_matches ic c i \<or> class_matches ic is c)"

text \<open>A literal run of characters, compared up to case under the \<^verbatim>\<open>i\<close> flag.\<close>

fun lit_matches :: "bool \<Rightarrow> string \<Rightarrow> mstate \<Rightarrow> mstate option" where
  "lit_matches ic [] s = Some s"
| "lit_matches ic (d # ds) (MState p [] e caps) = None"
| "lit_matches ic (d # ds) (MState p (c # cs) e caps) =
     (if canonicalize ic c = canonicalize ic d then lit_matches ic ds (MState (Some c) cs (Suc e) caps)
      else None)"

text \<open>Greedy and lazy repetition. An iteration that consumes nothing is not taken, so
  the number of characters ahead bounds the number of iterations.\<close>

primrec star_greedy :: "(continuation \<Rightarrow> mstate \<Rightarrow> mstate option) \<Rightarrow> nat \<Rightarrow> continuation \<Rightarrow> mstate \<Rightarrow> mstate option" where
  "star_greedy m 0 k s = k s"
| "star_greedy m (Suc n) k s =
     (case m (\<lambda>t. if endIndex s < endIndex t then star_greedy m n k t else None) s of
        Some r \<Rightarrow> Some r
      | None \<Rightarrow> k s)"

primrec star_lazy :: "(continuation \<Rightarrow> mstate \<Rightarrow> mstate option) \<Rightarrow> nat \<Rightarrow> continuation \<Rightarrow> mstate \<Rightarrow> mstate option" where
  "star_lazy m 0 k s = k s"
| "star_lazy m (Suc n) k s =
     (case k s of
        Some r \<Rightarrow> Some r
      | None \<Rightarrow> m (\<lambda>t. if endIndex s < endIndex t then star_lazy m n k t else None) s)"

primrec rmatch :: "flags \<Rightarrow> regex \<Rightarrow> continuation \<Rightarrow> mstate \<Rightarrow> mstate option" where
  "rmatch fl (RLit w) k s = (case lit_matches (ignoreCase fl) w s of None \<Rightarrow> None | Some t \<Rightarrow> k t)"
| "rmatch fl (RClass items) k s =
     (case ahead s of
        [] \<Rightarrow> None
      | c # cs \<Rightarrow>
          if class_matches (ignoreCase fl) items c
          then k (MState (Some c) cs (Suc (endIndex s)) (captures s))
          else None)"
| "rmatch fl (RSeq a b) k s = rmatch fl a (rmatch fl b k) s"
| "rmatch fl (RAlt a b) k s =
     (case rmatch fl a k s of Some r \<Rightarrow> Some r | None \<Rightarrow> rmatch fl b k s)"
| "rmatch fl (RStar a) k s = star_greedy (rmatch fl a) (length (ahead s)) k s"
| "rmatch fl (RLazyStar a) k s = star_lazy (rmatch fl a) (length (ahead s)) k s"
| "rmatch fl (RGroup i a) k s =
     rmatch fl a
       (\<lambda>t. k (MState (lastChar t) (ahead t) (endIndex t)
                 ((i, take (endIndex t - endIndex s) (ahead s)) # captures t))) s"
| "rmatch fl RBol k s =
     (case lastChar s of
        None \<Rightarrow> k s
      | Some c \<Rightarrow> if multiline fl \<and> isLineTerminator c then k s else None)"
| "rmatch fl REol k s =
     (case ahead s of
        [] \<Rightarrow> k s
      | c # cs \<Rightarrow> if multiline fl \<and> isLineTerminator c then k s else None)"

text \<open>Derived forms: the empty pattern, \<^verbatim>\<open>r?\<close>, \<^verbatim>\<open>r+\<close>, \<^verbatim>\<open>r+?\<close>, an alternation and a
  sequence of several parts, \<^verbatim>\<open>\s\<close> and \<^verbatim>\<open>\d\<close>.\<close>

definition reps :: regex where
  "reps = RLit []"

definition ropt :: "regex \<Rightarrow> regex" where
  "ropt r = RAlt r reps"

definition rplus :: "regex \<Rightarrow> regex" where
  "rplus r = RSeq r (RStar r)"

definition rlazy_plus :: "regex \<Rightarrow> regex" where
  "rlazy_plus r = RSeq r (RLazyStar r)"

fun ralts :: "regex list \<Rightarrow> regex" where
  "ralts [] = RClass []"
| "ralts [r] = r"
| "ralts (r # q # rs) = RAlt r (ralts (q # rs))"

fun rseqs :: "regex list \<Rightarrow> regex" where
  "rseqs [] = reps"
| "rseqs [r] = r"
| "rseqs (r # q # rs) = RSeq r (rseqs (q # rs))"

definition rspace :: regex where
  "rspace = RClass [CSpace]"

definition rdigit :: regex where
  "rdigit = RClass [CDigit]"

text \<open>The result of \<^verbatim>\<open>s.match(re)\<close> for a pattern without the \<^verbatim>\<open>g\<close> flag: the matched text
  (\<^verbatim>\<open>match[0]\<close>) and the captures, with \<^verbatim>\<open>undefined\<close> for a group that took no part.\<close>

datatype match_result = Match (matched: string) (groups: "(nat \<times> string) list")

definition capture :: "match_result \<Rightarrow> nat \<Rightarrow> string option" where
  "capture m i = map_of (groups m) i"

text \<open>The search tries every start position from the left; the first position where the
  matcher succeeds gives the result.\<close>

fun search_from :: "flags \<Rightarrow> regex \<Rightarrow> char option \<Rightarrow> string \<Rightarrow> match_result option" where
  "search_from fl r p [] =
     (case rmatch fl r Some (MState p [] 0 []) of
        None \<Rightarrow> None
      | Some t \<Rightarrow> Some (Match [] (captures t)))"
| "search_from fl r p (c # cs) =
     (case rmatch fl r Some (MState p (c # cs) 0 []) of
        None \<Rightarrow> search_from fl r (Some c) cs
      | Some t \<Rightarrow> Some (Match (take (endIndex t) (c # cs)) (captures t)))"

definition js_match :: "string \<Rightarrow> flags \<times> regex \<Rightarrow> match_result option" where
  "js_match s re = search_from (fst re) (snd re) None s"

subsection \<open>What a match can be\<close>

text \<open>
  For reasoning about every document, the states a pattern can lead to are described by
  a relation: \<open>steps fl r s t\<close> holds when some way of matching \<open>r\<close> from the state \<open>s\<close> ends
  in \<open>t\<close>. The matcher only ever hands such states to its continuation. The relation
  ignores the order of the alternatives and takes the anchors as always passable.
\<close>

inductive steps :: "flags \<Rightarrow> regex \<Rightarrow> mstate \<Rightarrow> mstate \<Rightarrow> bool" for fl :: flags where
  sLit: "lit_matches (ignoreCase fl) w s = Some t \<Longrightarrow> steps fl (RLit w) s t"
| sClass: "ahead s = c # cs \<Longrightarrow> class_matches (ignoreCase fl) items c \<Longrightarrow>
     steps fl (RClass items) s (MState (Some c) cs (Suc (endIndex s)) (captures s))"
| sSeq: "steps fl a s u \<Longrightarrow> steps fl b u t \<Longrightarrow> steps fl (RSeq a b) s t"
| sAlt1: "steps fl a s t \<Longrightarrow> steps fl (RAlt a b) s t"
| sAlt2: "steps fl b s t \<Longrightarrow> steps fl (RAlt a b) s t"
| sStar0: "steps fl (RStar a) s s"
| sStarN: "steps fl a s u \<Longrightarrow> steps fl (RStar a) u t \<Longrightarrow> steps fl (RStar a) s t"
| sLazy0: "steps fl (RLazyStar a) s s"
| sLazyN: "steps fl a s u \<Longrightarrow> steps fl (RLazyStar a) u t \<Longrightarrow> steps fl (RLazyStar a) s t"
| sGroup: "steps fl a s t \<Longrightarrow>
     steps fl (RGroup i a) s
       (MState (lastChar t) (ahead t) (endIndex t) ((i, take (endIndex t - endIndex s) (ahead s)) # captures t))"
| sBol: "steps fl RBol s s"
| sEol: "steps fl REol s s"

text \<open>\<open>is_group r i b\<close>: the pattern \<open>r\<close> has a group numbered \<open>i\<close> with the body \<open>b\<close>.\<close>

primrec is_group :: "regex \<Rightarrow> nat \<Rightarrow> regex \<Rightarrow> bool" where
  "is_group (RLit w) i b = False"
| "is_group (RClass items) i b = False"
| "is_group (RSeq a c) i b = (is_group a i b \<or> is_group c i b)"
| "is_group (RAlt a c) i b = (is_group a i b \<or> is_group c i b)"
| "is_group (RStar a) i b = is_group a i b"
| "is_group (RLazyStar a) i b = is_group a i b"
| "is_group (RGroup j a) i b = ((i = j \<and> b = a) \<or> is_group a i b)"
| "is_group RBol i b = False"
| "is_group REol i b = False"

text \<open>The groups that take part in every match of a pattern.\<close>

primrec sure_groups :: "regex \<Rightarrow> nat set" where
  "sure_groups (RLit w) = {}"
| "sure_groups (RClass items) = {}"
| "sure_groups (RSeq a c) = sure_groups a \<union> sure_groups c"
| "sure_groups (RAlt a c) = sure_groups a \<inter> sure_groups c"
| "sure_groups (RStar a) = {}"
| "sure_groups (RLazyStar a) = {}"
| "sure_groups (RGroup j a) = insert j (sure_groups a)"
| "sure_groups RBol = {}"
| "sure_groups REol = {}"

section \<open>The extractor\<close>

subsection \<open>Patterns and vocabularies\<close>

definition flags_i :: flags where
  "flags_i = Flags True False"

definition flags_im :: flags where
  "flags_im = Flags True True"

text \<open>The three title patterns, in the order of \<^verbatim>\<open>titlePatterns\<close>:
  \<^verbatim>\<open>/(?:looking for|hiring|seeking|need|require)\s+(?:a\s+)?([a-z\s]+(?:intern|developer|engineer|analyst|designer|manager|executive|associate))/i\<close>,
  \<^verbatim>\<open>/(?:position|role|job title|opening)[\s:]+([a-z\s]+(?:intern|developer|engineer|analyst|designer|manager))/i\<close>,
  \<^verbatim>\<open>/^([a-z\s]+(?:intern|developer|engineer|analyst|designer|manager|executive))/im\<close>.\<close>

definition letters_spaces :: regex where
  "letters_spaces = RClass [CRange CHR ''a'' CHR ''z'', CSpace]"

definition titlePattern1 :: "flags \<times> regex" where
  "titlePattern1 =
     (flags_i,
      rseqs [ralts [RLit ''looking for'', RLit ''hiring'', RLit ''seeking'', RLit ''need'', RLit ''require''],
             rplus rspace,
             ropt (RSeq (RLit ''a'') (rplus rspace)),
             RGroup 1 (RSeq (rplus letters_spaces)
               (ralts [RLit ''intern'', RLit ''developer'', RLit ''engineer'', RLit ''analyst'',
                       RLit ''designer'', RLit ''manager'', RLit ''executive'', RLit ''associate'']))])"

definition titlePattern2 :: "flags \<times> regex" where
  "titlePattern2 =
     (flags_i,
      rseqs [ralts [RLit ''position'', RLit ''role'', RLit ''job title'', RLit ''opening''],
             rplus (RClass [CSpace, CChar CHR '':'']),
             RGroup 1 (RSeq (rplus letters_spaces)
               (ralts [RLit ''intern'', RLit ''developer'', RLit ''engineer'', RLit ''analyst'',
                       RLit ''designer'', RLit ''manager'']))])"

definition titlePattern3 :: "flags \<times> regex" where
  "titlePattern3 =
     (flags_im,
      RSeq RBol
        (RGroup 1 (RSeq (rplus letters_spaces)
           (ralts [RLit ''intern'', RLit ''developer'', RLit ''engineer'', RLit ''analyst'',
                   RLit ''designer'', RLit ''manager'', RLit ''executive'']))))"

definition titlePatterns :: "(flags \<times> regex) list" where
  "titlePatterns = [titlePattern1, titlePattern2, titlePattern3]"

definition SKILL_KEYWORDS :: "string list" where
  "SKILL_KEYWORDS =
     [''react'', ''angular'', ''vue'', ''javascript'', ''typescript'', ''python'', ''java'', ''node.js'',
      ''nodejs'', ''express'', ''mongodb'', ''sql'', ''mysql'', ''postgresql'', ''aws'', ''docker'',
      ''kubernetes'', ''git'', ''html'', ''css'', ''tailwind'', ''figma'', ''photoshop'', ''excel'',
      ''power bi'', ''tableau'', ''machine learning'', ''ml'', ''ai'', ''data analysis'', ''data science'',
      ''communication'', ''teamwork'', ''problem solving'', ''agile'', ''scrum'', ''api'', ''rest'',
      ''graphql'', ''c++'', ''c#'', ''.net'', ''flutter'', ''react native'', ''swift'', ''kotlin'',
      ''android'', ''ios'', ''linux'', ''devops'', ''ci/cd'', ''testing'', ''qa'', ''selenium'']"

text \<open>The location patterns, in the order of \<^verbatim>\<open>locationPatterns\<close>:
  \<^verbatim>\<open>/(?:location|based in|office|work from)[\s:]+([a-z\s,]+?)(?:\.|,|$|\n)/i\<close>,
  \<^verbatim>\<open>/(bangalore|bengaluru|mumbai|delhi|hyderabad|chennai|pune|kolkata|noida|gurgaon|gurugram)[,\s]*(india|karnataka|maharashtra|telangana|tamil nadu)?/i\<close>,
  \<^verbatim>\<open>/(?:remote|work from home|wfh)/i\<close>.\<close>

definition locationPattern1 :: "flags \<times> regex" where
  "locationPattern1 =
     (flags_i,
      rseqs [ralts [RLit ''location'', RLit ''based in'', RLit ''office'', RLit ''work from''],
             rplus (RClass [CSpace, CChar CHR '':'']),
             RGroup 1 (rlazy_plus (RClass [CRange CHR ''a'' CHR ''z'', CSpace, CChar CHR '',''])),
             ralts [RLit ''.'', RLit '','', REol, RLit [CHR 0x0A]]])"

definition locationPattern2 :: "flags \<times> regex" where
  "locationPattern2 =
     (flags_i,
      rseqs [RGroup 1 (ralts [RLit ''bangalore'', RLit ''bengaluru'', RLit ''mumbai'', RLit ''delhi'',
                              RLit ''hyderabad'', RLit ''chennai'', RLit ''pune'', RLit ''kolkata'',
                              RLit ''noida'', RLit ''gurgaon'', RLit ''gurugram'']),
             RStar (RClass [CChar CHR '','', CSpace]),
             ropt (RGroup 2 (ralts [RLit ''india'', RLit ''karnataka'', RLit ''maharashtra'',
                                    RLit ''telangana'', RLit ''tamil nadu'']))])"

definition locationPattern3 :: "flags \<times> regex" where
  "locationPattern3 = (flags_i, ralts [RLit ''remote'', RLit ''work from home'', RLit ''wfh''])"

definition locationPatterns :: "(flags \<times> regex) list" where
  "locationPatterns = [locationPattern1, locationPattern2, locationPattern3]"

text \<open>The intake patterns, in the order of \<^verbatim>\<open>intakePatterns\<close>:
  \<^verbatim>\<open>/(\d+)\s*(?:positions?|openings?|vacancies?|interns?|candidates?)/i\<close>,
  \<^verbatim>\<open>/(?:hiring|need|require|looking for)\s*(\d+)/i\<close>,
  \<^verbatim>\<open>/(?:positions?|openings?)\s*(?:available)?[\s:]*(\d+)/i\<close>.\<close>

definition intakePattern1 :: "flags \<times> regex" where
  "intakePattern1 =
     (flags_i,
      rseqs [RGroup 1 (rplus rdigit),
             RStar rspace,
             ralts [RSeq (RLit ''position'') (ropt (RLit ''s'')),
                    RSeq (RLit ''opening'') (ropt (RLit ''s'')),
                    RSeq (RLit ''vacancie'') (ropt (RLit ''s'')),
                    RSeq (RLit ''intern'') (ropt (RLit ''s'')),
                    RSeq (RLit ''candidate'') (ropt (RLit ''s''))]])"

definition intakePattern2 :: "flags \<times> regex" where
  "intakePattern2 =
     (flags_i,
      rseqs [ralts [RLit ''hiring'', RLit ''need'', RLit ''require'', RLit ''looking for''],
             RStar rspace,
             RGroup 1 (rplus rdigit)])"

definition intakePattern3 :: "flags \<times> regex" where
  "intakePattern3 =
     (flags_i,
      rseqs [ralts [RSeq (RLit ''position'') (ropt (RLit ''s'')),
                    RSeq (RLit ''opening'') (ropt (RLit ''s''))],
             RStar rspace,
             ropt (RLit ''available''),
             RStar (RClass [CSpace, CChar CHR '':'']),
             RGroup 1 (rplus rdigit)])"

definition intakePatterns :: "(flags \<times> regex) list" where
  "intakePatterns = [intakePattern1, intakePattern2, intakePattern3]"

text \<open>The stipend patterns, in the order of \<^verbatim>\<open>stipendPatterns\<close>:
  \<^verbatim>\<open>/(?:stipend|salary|compensation|pay)[\s:]*(?:rs\.?|inr|R)?\s*(\d{1,3}(?:,\d{3})*|\d+)(?:k|K)?/i\<close>,
  \<^verbatim>\<open>/(?:rs\.?|inr|R)\s*(\d{1,3}(?:,\d{3})*|\d+)(?:k|K)?\s*(?:per month|\/month|p\.m\.?|pm)/i\<close>,
  where \<^verbatim>\<open>R\<close> stands for the rupee sign of the source. The rupee sign is no ASCII
  character, so in this model of strings it is the class that matches no character.\<close>

definition rupee_sign :: regex where
  "rupee_sign = RClass []"

definition currency :: regex where
  "currency = ralts [RSeq (RLit ''rs'') (ropt (RLit ''.'')), RLit ''inr'', rupee_sign]"

text \<open>\<^verbatim>\<open>\d{1,3}(?:,\d{3})*|\d+\<close>; the greedy \<^verbatim>\<open>\d{1,3}\<close> tries three digits, then two, then one.\<close>

definition amount_digits :: regex where
  "amount_digits =
     RAlt (RSeq (RSeq rdigit (ropt (RSeq rdigit (ropt rdigit))))
                (RStar (rseqs [RLit '','', rdigit, rdigit, rdigit])))
          (rplus rdigit)"

definition k_suffix :: regex where
  "k_suffix = ropt (RAlt (RLit ''k'') (RLit ''K''))"

definition stipendPattern1 :: "flags \<times> regex" where
  "stipendPattern1 =
     (flags_i,
      rseqs [ralts [RLit ''stipend'', RLit ''salary'', RLit ''compensation'', RLit ''pay''],
             RStar (RClass [CSpace, CChar CHR '':'']),
             ropt currency,
             RStar rspace,
             RGroup 1 amount_digits,
             k_suffix])"

definition stipendPattern2 :: "flags \<times> regex" where
  "stipendPattern2 =
     (flags_i,
      rseqs [currency,
             RStar rspace,
             RGroup 1 amount_digits,
             k_suffix,
             RStar rspace,
             ralts [RLit ''per month'', RLit ''/month'', RSeq (RLit ''p.m'') (ropt (RLit ''.'')), RLit ''pm'']])"

definition stipendPatterns :: "(flags \<times> regex) list" where
  "stipendPatterns = [stipendPattern1, stipendPattern2]"

definition perksKeywords :: "string list" where
  "perksKeywords =
     [''certificate'', ''letter of recommendation'', ''lor'', ''flexible'', ''remote'',
      ''wfh'', ''work from home'', ''mentorship'', ''training'', ''ppo'', ''pre-placement'', ''bonus'',
      ''health insurance'', ''snacks'', ''meals'', ''team outings'']"

subsection \<open>The sub-extractors\<close>

text \<open>\<^verbatim>\<open>for (const pattern of patterns) { const match = jd.match(pattern); if (match) { ...; break; } }\<close>:
  the loop body runs for the first pattern of the list that matches, and for no other.\<close>

fun first_match :: "string \<Rightarrow> (flags \<times> regex) list \<Rightarrow> match_result option" where
  "first_match jd [] = None"
| "first_match jd (p # ps) = (case js_match jd p of Some m \<Rightarrow> Some m | None \<Rightarrow> first_match jd ps)"

text \<open>Reading a method of \<^verbatim>\<open>undefined\<close> (as \<^verbatim>\<open>match[1].trim()\<close> would, had group 1 taken no part
  in the match) throws.\<close>

datatype error = TypeError

text \<open>The title of a match:
  \<^verbatim>\<open>match[1].trim().replace(/\s+/g, ' ')\<close>, then every piece between spaces capitalized.\<close>

definition titleCase :: "string \<Rightarrow> string" where
  "titleCase t = join '' '' (map capitalize (split_space t))"

definition title_of_match :: "match_result \<Rightarrow> error + string" where
  "title_of_match m =
     (case capture m 1 of
        None \<Rightarrow> Inl TypeError
      | Some g \<Rightarrow> Inr (titleCase (collapse_spaces (trim g))))"

text \<open>The fallback when the title is still empty: role keywords of the lower-cased
  document, tried in this order.\<close>

definition fallback_title :: "string \<Rightarrow> string" where
  "fallback_title lowerJD =
     (if str_includes lowerJD ''software'' \<and> str_includes lowerJD ''intern'' then ''Software Development Intern''
      else if str_includes lowerJD ''frontend'' then ''Frontend Developer''
      else if str_includes lowerJD ''backend'' then ''Backend Developer''
      else if str_includes lowerJD ''full stack'' \<or> str_includes lowerJD ''fullstack'' then ''Full Stack Developer''
      else if str_includes lowerJD ''data analyst'' then ''Data Analyst''
      else if str_includes lowerJD ''data science'' then ''Data Science Intern''
      else if str_includes lowerJD ''marketing'' then ''Marketing Intern''
      else if str_includes lowerJD ''design'' then ''Design Intern''
      else ''Intern'')"

definition extract_title :: "string \<Rightarrow> error + string" where
  "extract_title jd =
     (case (case first_match jd titlePatterns of None \<Rightarrow> Inr [] | Some m \<Rightarrow> title_of_match m) of
        Inl e \<Rightarrow> Inl e
      | Inr title \<Rightarrow> Inr (if title = [] then fallback_title (toLowerCase jd) else title))"

text \<open>Skills: the vocabulary is scanned in its order; a keyword contained in the
  lower-cased document is formatted and pushed unless the list has it already.\<close>

definition upperTokens :: "string list" where
  "upperTokens = [''ai'', ''ml'', ''qa'', ''api'', ''sql'', ''aws'', ''css'', ''html'']"

definition formatSkill :: "string \<Rightarrow> string" where
  "formatSkill skill =
     join '' '' (map (\<lambda>w. if toLowerCase w \<in> set upperTokens then toUpperCase w else capitalize w)
                    (split_space skill))"

fun skills_loop :: "string \<Rightarrow> string list \<Rightarrow> string list \<Rightarrow> string list" where
  "skills_loop lowerJD skills [] = skills"
| "skills_loop lowerJD skills (skill # rest) =
     (if str_includes lowerJD (toLowerCase skill)
      then (if formatSkill skill \<notin> set skills
            then skills_loop lowerJD (skills @ [formatSkill skill]) rest
            else skills_loop lowerJD skills rest)
      else skills_loop lowerJD skills rest)"

definition extract_skills :: "string \<Rightarrow> string list" where
  "extract_skills jd = skills_loop (toLowerCase jd) [] SKILL_KEYWORDS"

text \<open>Location: \<^verbatim>\<open>match[0].includes('remote') || match[0].includes('wfh') ? 'Remote' : match[1]?.trim() || ''\<close>,
  then every piece between spaces capitalized and lower-cased behind its first letter.\<close>

definition location_of_match :: "match_result \<Rightarrow> string" where
  "location_of_match m =
     (let location =
        (if str_includes (matched m) ''remote'' \<or> str_includes (matched m) ''wfh'' then ''Remote''
         else (case capture m 1 of None \<Rightarrow> [] | Some g \<Rightarrow> trim g))
      in join '' '' (map capitalize_lower (split_space location)))"

definition extract_location :: "string \<Rightarrow> string" where
  "extract_location jd =
     (case first_match jd locationPatterns of None \<Rightarrow> [] | Some m \<Rightarrow> location_of_match m)"

text \<open>Intake: \<^verbatim>\<open>parseInt(match[1], 10) || 1\<close>, with 1 when no pattern matches; \<^verbatim>\<open>parseInt\<close>
  reads \<^verbatim>\<open>undefined\<close> as the string of that name.\<close>

definition intake_of_match :: "match_result \<Rightarrow> number" where
  "intake_of_match m =
     (let n = parseInt (case capture m 1 of None \<Rightarrow> ''undefined'' | Some g \<Rightarrow> g)
      in if truthyNumber n then n else Num 1)"

definition extract_intake :: "string \<Rightarrow> number" where
  "extract_intake jd =
     (case first_match jd intakePatterns of None \<Rightarrow> Num 1 | Some m \<Rightarrow> intake_of_match m)"

text \<open>Stipend: the commas of \<^verbatim>\<open>match[1]\<close> are removed, the rest is parsed, and the amount is
  multiplied by 1000 when the matched text has a \<^verbatim>\<open>k\<close> or \<^verbatim>\<open>K\<close> in it. No match leaves the
  stipend \<^verbatim>\<open>undefined\<close>.\<close>

definition stipend_of_match :: "string \<Rightarrow> match_result \<Rightarrow> error + number" where
  "stipend_of_match jd m =
     (case capture m 1 of
        None \<Rightarrow> Inl TypeError
      | Some g \<Rightarrow>
          (let amount = filter (\<lambda>c. c \<noteq> CHR '','') g;
               stipend = parseInt amount
           in Inr (if str_includes (toLowerCase jd) (toLowerCase (matched m)) \<and>
                      (str_includes (matched m) ''k'' \<or> str_includes (matched m) ''K'')
                   then timesNumber stipend 1000 else stipend)))"

definition extract_stipend :: "string \<Rightarrow> error + number option" where
  "extract_stipend jd =
     (case first_match jd stipendPatterns of
        None \<Rightarrow> Inr None
      | Some m \<Rightarrow> (case stipend_of_match jd m of Inl e \<Rightarrow> Inl e | Inr n \<Rightarrow> Inr (Some n)))"

text \<open>Perks: the keywords contained in the lower-cased document, relabelled, without
  repetition.\<close>

definition formatPerk :: "string \<Rightarrow> string" where
  "formatPerk perk =
     (if perk = ''lor'' then ''Letter of Recommendation''
      else if perk = ''ppo'' then ''PPO (Pre-Placement Offer)''
      else if perk = ''wfh'' then ''Work from Home''
      else join '' '' (map capitalize (split_space perk)))"

fun perks_loop :: "string \<Rightarrow> string list \<Rightarrow> string list \<Rightarrow> string list" where
  "perks_loop lowerJD foundPerks [] = foundPerks"
| "perks_loop lowerJD foundPerks (perk # rest) =
     (if str_includes lowerJD perk
      then (if formatPerk perk \<notin> set foundPerks
            then perks_loop lowerJD (foundPerks @ [formatPerk perk]) rest
            else perks_loop lowerJD foundPerks rest)
      else perks_loop lowerJD foundPerks rest)"

definition extract_perks :: "string \<Rightarrow> string option" where
  "extract_perks jd =
     (let foundPerks = perks_loop (toLowerCase jd) [] perksKeywords
      in if length foundPerks > 0 then Some (join '', '' foundPerks) else None)"

subsection \<open>The analysis\<close>

record JDAnalysisResult =
  result_title :: string
  result_skills :: "string list"
  result_location :: string
  result_intake :: number
  result_stipend :: "number option"
  result_perks :: "string option"

text \<open>\<^verbatim>\<open>analyzeJobDescription\<close> without its simulated latency: the sub-extractors run in the
  order of the source, an exception of one of them ends the run, and the result takes the
  first ten skills and the intake capped at 100.\<close>

definition analyzeJobDescription :: "string \<Rightarrow> error + JDAnalysisResult" where
  "analyzeJobDescription jd =
     (case extract_title jd of
        Inl e \<Rightarrow> Inl e
      | Inr title \<Rightarrow>
          (case extract_stipend jd of
             Inl e \<Rightarrow> Inl e
           | Inr stipend \<Rightarrow>
               Inr \<lparr> result_title = title,
                     result_skills = take 10 (extract_skills jd),
                     result_location = extract_location jd,
                     result_intake = minNumber (extract_intake jd) 100,
                     result_stipend = stipend,
                     result_perks = extract_perks jd \<rparr>))"

section \<open>The form\<close>

text \<open>The state of the \<^verbatim>\<open>CreateJob\<close> component: the document, the six fields with their
  \<^verbatim>\<open>...Suggested\<close> flags, and the error line.\<close>

record form =
  jobDescription :: string
  isAnalyzing :: bool
  hasAnalyzed :: bool
  title :: string
  titleSuggested :: bool
  skillInput :: string
  skills :: "string list"
  skillsSuggested :: bool
  locationLabel :: string
  locationSuggested :: bool
  intake :: string
  intakeSuggested :: bool
  stipend :: string
  stipendSuggested :: bool
  perks :: string
  perksSuggested :: bool
  error :: string

text \<open>The state a freshly mounted component starts from.\<close>

definition initialForm :: form where
  "initialForm =
     \<lparr> jobDescription = [], isAnalyzing = False, hasAnalyzed = False,
       title = [], titleSuggested = False,
       skillInput = [], skills = [], skillsSuggested = False,
       locationLabel = [], locationSuggested = False,
       intake = [], intakeSuggested = False,
       stipend = [], stipendSuggested = False,
       perks = [], perksSuggested = False,
       error = [] \<rparr>"

subsection \<open>Merging an analysis into the form\<close>

text \<open>The block of \<^verbatim>\<open>handleAnalyzeJD\<close> that fills the fields from the result: each field of
  the result that is truthy is written to the form and flagged as suggested; a field
  that is not is left alone. The block reads nothing of the form.\<close>

definition applyExtraction :: "JDAnalysisResult \<Rightarrow> form \<Rightarrow> form" where
  "applyExtraction result f =
     (let f1 = (if result_title result \<noteq> [] then f\<lparr>title := result_title result, titleSuggested := True\<rparr> else f);
          f2 = (if length (result_skills result) > 0 then f1\<lparr>skills := result_skills result, skillsSuggested := True\<rparr> else f1);
          f3 = (if result_location result \<noteq> [] then f2\<lparr>locationLabel := result_location result, locationSuggested := True\<rparr> else f2);
          f4 = (if truthyNumber (result_intake result)
                then f3\<lparr>intake := numberToString (result_intake result), intakeSuggested := True\<rparr> else f3);
          f5 = (case result_stipend result of
                  None \<Rightarrow> f4
                | Some n \<Rightarrow> if truthyNumber n then f4\<lparr>stipend := numberToString n, stipendSuggested := True\<rparr> else f4);
          f6 = (case result_perks result of
                  None \<Rightarrow> f5
                | Some p \<Rightarrow> if p \<noteq> [] then f5\<lparr>perks := p, perksSuggested := True\<rparr> else f5)
      in f6)"

text \<open>\<^verbatim>\<open>handleAnalyzeJD\<close>: a document of fewer than 100 characters only sets the error line;
  otherwise the analysis runs and its result is merged; an exception of the analysis is
  caught and reported.\<close>

definition handleAnalyzeJD :: "form \<Rightarrow> form" where
  "handleAnalyzeJD f =
     (if length (jobDescription f) < 100
      then f\<lparr>error := ''Please enter a more detailed job description (at least 100 characters)''\<rparr>
      else (case analyzeJobDescription (jobDescription f) of
              Inr result \<Rightarrow> (applyExtraction result (f\<lparr>error := []\<rparr>))\<lparr>hasAnalyzed := True, isAnalyzing := False\<rparr>
            | Inl e \<Rightarrow> f\<lparr>error := ''Failed to analyze job description. Please try again.'', isAnalyzing := False\<rparr>))"

subsection \<open>User edits\<close>

text \<open>The \<^verbatim>\<open>onChange\<close> handlers of the five inputs: the value typed replaces the field and
  the field's flag is cleared.\<close>

definition titleOnChange :: "string \<Rightarrow> form \<Rightarrow> form" where
  "titleOnChange v f = f\<lparr>title := v, titleSuggested := False\<rparr>"

definition locationOnChange :: "string \<Rightarrow> form \<Rightarrow> form" where
  "locationOnChange v f = f\<lparr>locationLabel := v, locationSuggested := False\<rparr>"

definition intakeOnChange :: "string \<Rightarrow> form \<Rightarrow> form" where
  "intakeOnChange v f = f\<lparr>intake := v, intakeSuggested := False\<rparr>"

definition stipendOnChange :: "string \<Rightarrow> form \<Rightarrow> form" where
  "stipendOnChange v f = f\<lparr>stipend := v, stipendSuggested := False\<rparr>"

definition perksOnChange :: "string \<Rightarrow> form \<Rightarrow> form" where
  "perksOnChange v f = f\<lparr>perks := v, perksSuggested := False\<rparr>"

text \<open>Skills are edited through \<^verbatim>\<open>handleAddSkill\<close> and \<^verbatim>\<open>handleRemoveSkill\<close>.\<close>

definition handleAddSkill :: "form \<Rightarrow> form" where
  "handleAddSkill f =
     (let trimmed = trim (skillInput f)
      in if trimmed \<noteq> [] \<and> trimmed \<notin> set (skills f)
         then f\<lparr>skills := skills f @ [trimmed], skillInput := [], skillsSuggested := False\<rparr>
         else f)"

definition handleRemoveSkill :: "string \<Rightarrow> form \<Rightarrow> form" where
  "handleRemoveSkill skill f =
     (let f1 = f\<lparr>skills := filter (\<lambda>s. s \<noteq> skill) (skills f)\<rparr>
      in if length (skills f) \<le> 1 then f1\<lparr>skillsSuggested := False\<rparr> else f1)"

subsection \<open>Submission\<close>

text \<open>The payload \<^verbatim>\<open>handleSubmit\<close> builds once the form is valid; the random coordinates of
  its location are left out.\<close>

record CreateJobInput =
  job_title :: string
  job_requiredSkills :: "string list"
  job_locationLabel :: string
  job_intake :: int
  job_stipend :: "number option"
  job_perks :: "string option"
  job_originalJD :: string

text \<open>The five checks of \<^verbatim>\<open>handleSubmit\<close>, each with the message it sets.\<close>

definition description_invalid :: "form \<Rightarrow> bool" where
  "description_invalid f = (trim (jobDescription f) = [] \<or> length (jobDescription f) < 100)"

definition title_invalid :: "form \<Rightarrow> bool" where
  "title_invalid f = (trim (title f) = [])"

definition skills_invalid :: "form \<Rightarrow> bool" where
  "skills_invalid f = (length (skills f) = 0)"

definition location_invalid :: "form \<Rightarrow> bool" where
  "location_invalid f = (trim (locationLabel f) = [])"


definition description_message :: string where
  "description_message = ''A detailed job description is required (at least 100 characters)''"

definition title_message :: string where
  "title_message = ''Job title is required''"

definition skills_message :: string where
  "skills_message = ''At least one skill is required''"

definition location_message :: string where
  "location_message = ''Location is required''"

definition intake_message :: string where
  "intake_message = ''Intake capacity must be at least 1''"

text \<open>\<^verbatim>\<open>handleSubmit\<close> up to the call of the job service: the checks run in the order of the
  source and the first one that fails sets its message and returns (\<open>Inl\<close>); when all
  pass, the payload is built (\<open>Inr\<close>).\<close>

definition handleSubmit :: "form \<Rightarrow> string + CreateJobInput" where
  "handleSubmit f =
     (if description_invalid f then Inl description_message
      else if title_invalid f then Inl title_message
      else if skills_invalid f then Inl skills_message
      else if location_invalid f then Inl location_message
      else (case parseInt (intake f) of
              NaN \<Rightarrow> Inl intake_message
            | Num intakeNum \<Rightarrow>
                if intakeNum < 1 then Inl intake_message
                else Inr \<lparr> job_title = trim (title f),
                           job_requiredSkills = skills f,
                           job_locationLabel = trim (locationLabel f),
                           job_intake = intakeNum,
                           job_stipend = (if stipend f \<noteq> [] then Some (parseInt (stipend f)) else None),
                           job_perks = (if trim (perks f) \<noteq> [] then Some (trim (perks f)) else None),
                           job_originalJD = trim (jobDescription f) \<rparr>))"




subsection \<open>Two forms used as examples\<close>


text \<open>A form that is complete but for its document: 50 letters followed by 50 spaces.\<close>

definition paddedForm :: form where
  "paddedForm =
     initialForm\<lparr> jobDescription := replicate 50 CHR ''a'' @ replicate 50 CHR '' '',
                  title := ''Intern'', skills := [''React''], locationLabel := ''Pune'',
                  intake := ''1'' \<rparr>"


section \<open>Facts about strings\<close>

lemma trim_empty_iff: "(trim s = []) = list_all isSpaceChar s"
proof
  assume "trim s = []"
  then have a: "\<forall>c \<in> set (dropWhile isSpaceChar s). isSpaceChar c"
    by (simp add: trim_def dropWhile_eq_Nil_conv)
  have "dropWhile isSpaceChar s = []"
  proof (cases "dropWhile isSpaceChar s")
    case Nil
    then show ?thesis .
  next
    case (Cons c cs)
    then have "\<not> isSpaceChar c"
      using hd_dropWhile [of isSpaceChar s] by simp
    with Cons a show ?thesis by simp
  qed
  then show "list_all isSpaceChar s"
    by (simp add: list_all_iff)
next
  assume "list_all isSpaceChar s"
  then show "trim s = []"
    by (auto simp add: trim_def list_all_iff dest: set_dropWhileD)
qed

lemma length_trim_le: "length (trim s) \<le> length s"
proof -
  have "length (trim s) \<le> length (dropWhile isSpaceChar s)"
    unfolding trim_def using length_dropWhile_le [of isSpaceChar "rev (dropWhile isSpaceChar s)"] by simp
  also have "\<dots> \<le> length s" by (rule length_dropWhile_le)
  finally show ?thesis .
qed

section \<open>Evaluation\<close>

text \<open>The character tests and case mappings on a character given by its bits, so that
  the extractor can be run on a concrete document by rewriting.\<close>

lemma isUpperChar_Char:
  "isUpperChar (Char b0 b1 b2 b3 b4 b5 b6 b7) =
     (b6 \<and> \<not> b5 \<and> \<not> b7 \<and> (b0 \<or> b1 \<or> b2 \<or> b3 \<or> b4) \<and> \<not> (b4 \<and> b3 \<and> (b2 \<or> (b1 \<and> b0))))"
  by (cases b0; cases b1; cases b2; cases b3; cases b4; cases b5; cases b6; cases b7; simp add: isUpperChar_def)

lemma isLowerChar_Char:
  "isLowerChar (Char b0 b1 b2 b3 b4 b5 b6 b7) =
     (b6 \<and> b5 \<and> \<not> b7 \<and> (b0 \<or> b1 \<or> b2 \<or> b3 \<or> b4) \<and> \<not> (b4 \<and> b3 \<and> (b2 \<or> (b1 \<and> b0))))"
  by (cases b0; cases b1; cases b2; cases b3; cases b4; cases b5; cases b6; cases b7; simp add: isLowerChar_def)

lemma isDigitChar_Char:
  "isDigitChar (Char b0 b1 b2 b3 b4 b5 b6 b7) =
     (b4 \<and> b5 \<and> \<not> b6 \<and> \<not> b7 \<and> (\<not> b3 \<or> (\<not> b2 \<and> \<not> b1)))"
  by (cases b0; cases b1; cases b2; cases b3; cases b4; cases b5; cases b6; cases b7; simp add: isDigitChar_def)

lemma isSpaceChar_Char:
  "isSpaceChar (Char b0 b1 b2 b3 b4 b5 b6 b7) =
     (\<not> b6 \<and> \<not> b4 \<and>
      ((b5 \<and> \<not> b0 \<and> \<not> b1 \<and> \<not> b2 \<and> \<not> b3) \<or>
       (\<not> b7 \<and> \<not> b5 \<and> b3 \<and> ((\<not> b2 \<and> (b0 \<or> b1)) \<or> (b2 \<and> \<not> b1)))))"
  by (cases b0; cases b1; cases b2; cases b3; cases b4; cases b5; cases b6; cases b7; simp add: isSpaceChar_def)

lemma isLineTerminator_Char:
  "isLineTerminator (Char b0 b1 b2 b3 b4 b5 b6 b7) =
     (\<not> b4 \<and> \<not> b5 \<and> \<not> b6 \<and> \<not> b7 \<and> b3 \<and> ((\<not> b0 \<and> b1 \<and> \<not> b2) \<or> (b0 \<and> \<not> b1 \<and> b2)))"
  by (cases b0; cases b1; cases b2; cases b3; cases b4; cases b5; cases b6; cases b7; simp add: isLineTerminator_def)

lemma isLatin1Upper_Char:
  "isLatin1Upper (Char b0 b1 b2 b3 b4 b5 b6 b7) =
     (b7 \<and> b6 \<and> \<not> b5 \<and> \<not> (b4 \<and> b2 \<and> b1 \<and> b0))"
  by (cases b0; cases b1; cases b2; cases b3; cases b4; cases b5; cases b6; cases b7; simp add: isLatin1Upper_def)

lemma lowerChar_Char:
  "lowerChar (Char b0 b1 b2 b3 b4 b5 b6 b7) =
     Char b0 b1 b2 b3 b4
       (b5 \<or> isUpperChar (Char b0 b1 b2 b3 b4 b5 b6 b7) \<or> isLatin1Upper (Char b0 b1 b2 b3 b4 b5 b6 b7))
       b6 b7"
  by (cases b0; cases b1; cases b2; cases b3; cases b4; cases b5; cases b6; cases b7; simp add: lowerChar_def isUpperChar_def isLatin1Upper_def char_of_def bit_Suc_0_iff)

lemma upperChar_Char:
  "upperChar (Char b0 b1 b2 b3 b4 b5 b6 b7) =
     Char b0 b1 b2 b3 b4 (b5 \<and> \<not> isLowerChar (Char b0 b1 b2 b3 b4 b5 b6 b7)) b6 b7"
  by (cases b0; cases b1; cases b2; cases b3; cases b4; cases b5; cases b6; cases b7; simp add: upperChar_def isLowerChar_def char_of_def bit_Suc_0_iff)


lemma range_az_ignoreCase:
  "item_matches True c (CRange CHR ''a'' CHR ''z'') = (isLowerChar c \<or> isUpperChar c)"
proof (cases c)
  case (Char b0 b1 b2 b3 b4 b5 b6 b7)
  show ?thesis
    unfolding Char
    by (cases b0; cases b1; cases b2; cases b3; cases b4; cases b5; cases b6; cases b7;
        simp add: lowerChar_Char upperChar_Char isLowerChar_Char isUpperChar_Char)
qed

lemmas char_eval = isUpperChar_Char isLowerChar_Char isDigitChar_Char isSpaceChar_Char isLatin1Upper_Char
  isLineTerminator_Char lowerChar_Char upperChar_Char range_az_ignoreCase

text \<open>The definitions that running the extractor on a document unfolds.\<close>

lemmas eval_defs = char_eval toLowerCase_def toUpperCase_def trim_def collapse_spaces_def
  digitValue_def parseDigits_def parseInt_def truthyNumber_def minNumber_def timesNumber_def
  canonicalize_def reps_def ropt_def rplus_def rlazy_plus_def rspace_def rdigit_def capture_def
  js_match_def flags_i_def flags_im_def letters_spaces_def
  titlePattern1_def titlePattern2_def titlePattern3_def titlePatterns_def
  locationPattern1_def locationPattern2_def locationPattern3_def locationPatterns_def
  intakePattern1_def intakePattern2_def intakePattern3_def intakePatterns_def
  rupee_sign_def currency_def amount_digits_def k_suffix_def
  stipendPattern1_def stipendPattern2_def stipendPatterns_def
  titleCase_def title_of_match_def fallback_title_def extract_title_def
  location_of_match_def extract_location_def intake_of_match_def extract_intake_def
  stipend_of_match_def extract_stipend_def

text \<open>The rewrite rules of a run: the definitions, the equations of the recursive
  functions and of the data types, and no more, with the branches of a conditional
  rewritten only once its condition is decided.\<close>

lemmas run_rules = eval_defs
  rmatch.simps lit_matches.simps star_greedy.simps star_lazy.simps search_from.simps first_match.simps
  class_matches.simps item_matches.simps(1,3,4) ralts.simps rseqs.simps
  startsWith.simps str_includes.simps split_space.simps join.simps collapse_from.simps
  capitalize.simps capitalize_lower.simps digitsValue.simps
  option.case list.case sum.case number.case prod.case mstate.sel flags.sel match_result.sel
  fst_conv snd_conv option.distinct list.distinct option.inject list.inject char.inject prod.inject
  number.inject number.distinct sum.inject sum.distinct match_result.inject
  simp_thms if_True if_False Let_def
  list.map filter.simps append.simps rev.simps dropWhile.simps takeWhile.simps take_Suc_Cons take_0 take.simps(1)
  list.size(3,4) map_of.simps fun_upd_apply nat.inject nat.distinct
  Suc_less_eq zero_less_Suc not_less_zero diff_Suc_Suc diff_zero add_0 add_Suc add_0_right add_Suc_right
  One_nat_def numeral_2_eq_2

lemmas run_congs = if_weak_cong option.case_cong_weak list.case_cong_weak sum.case_cong_weak
  number.case_cong_weak


section \<open>Properties of the matcher\<close>

lemma lit_matches_consumes:
  "lit_matches ic w s = Some t \<Longrightarrow>
     \<exists>u. ahead s = u @ ahead t \<and> length u = length w \<and> endIndex t = endIndex s + length w \<and>
         captures t = captures s \<and> list_all2 (\<lambda>c d. canonicalize ic c = canonicalize ic d) u w"
proof (induction ic w s rule: lit_matches.induct)
  case (1 ic s)
  then show ?case by simp
next
  case (2 ic d ds p e caps)
  then show ?case by simp
next
  case (3 ic d ds p c cs e caps)
  from "3.prems" have eq: "canonicalize ic c = canonicalize ic d"
    and rest: "lit_matches ic ds (MState (Some c) cs (Suc e) caps) = Some t"
    by (simp_all split: if_splits)
  from "3.IH" [OF eq rest] obtain u where
    "cs = u @ ahead t" "length u = length ds" "endIndex t = Suc e + length ds"
    "captures t = caps" "list_all2 (\<lambda>c d. canonicalize ic c = canonicalize ic d) u ds"
    by auto
  with eq show ?case
    by (intro exI [of _ "c # u"]) simp
qed

text \<open>The matcher is sound for the relation: whatever it returns, its continuation has
  returned for a state the pattern leads to.\<close>

lemma star_greedy_sound:
  assumes m: "\<And>k s t. m k s = Some t \<Longrightarrow> \<exists>u. steps fl a s u \<and> k u = Some t"
  shows "star_greedy m n k s = Some t \<Longrightarrow> \<exists>u. steps fl (RStar a) s u \<and> k u = Some t"
proof (induction n arbitrary: s)
  case 0
  then show ?case by (auto intro: steps.sStar0)
next
  case (Suc n)
  let ?K = "\<lambda>u. if endIndex s < endIndex u then star_greedy m n k u else None"
  show ?case
  proof (cases "m ?K s")
    case None
    with Suc.prems have "k s = Some t" by simp
    then show ?thesis by (auto intro: steps.sStar0)
  next
    case (Some r)
    with Suc.prems have "m ?K s = Some t" by simp
    from m [OF this] obtain u where u: "steps fl a s u" "?K u = Some t" by blast
    then have "star_greedy m n k u = Some t" by (simp split: if_splits)
    from Suc.IH [OF this] obtain v where "steps fl (RStar a) u v" "k v = Some t" by blast
    with u show ?thesis by (auto intro: steps.sStarN)
  qed
qed

lemma star_lazy_sound:
  assumes m: "\<And>k s t. m k s = Some t \<Longrightarrow> \<exists>u. steps fl a s u \<and> k u = Some t"
  shows "star_lazy m n k s = Some t \<Longrightarrow> \<exists>u. steps fl (RLazyStar a) s u \<and> k u = Some t"
proof (induction n arbitrary: s)
  case 0
  then show ?case by (auto intro: steps.sLazy0)
next
  case (Suc n)
  let ?K = "\<lambda>u. if endIndex s < endIndex u then star_lazy m n k u else None"
  show ?case
  proof (cases "k s")
    case (Some r)
    with Suc.prems have "k s = Some t" by simp
    then show ?thesis by (auto intro: steps.sLazy0)
  next
    case None
    with Suc.prems have "m ?K s = Some t" by simp
    from m [OF this] obtain u where u: "steps fl a s u" "?K u = Some t" by blast
    then have "star_lazy m n k u = Some t" by (simp split: if_splits)
    from Suc.IH [OF this] obtain v where "steps fl (RLazyStar a) u v" "k v = Some t" by blast
    with u show ?thesis by (auto intro: steps.sLazyN)
  qed
qed

lemma rmatch_sound:
  "rmatch fl r k s = Some t \<Longrightarrow> \<exists>u. steps fl r s u \<and> k u = Some t"
proof (induction r arbitrary: k s t)
  case (RLit w)
  then show ?case by (auto split: option.splits intro: steps.sLit)
next
  case (RClass items)
  then show ?case by (auto split: list.splits if_splits intro: steps.sClass)
next
  case (RSeq a b)
  from RSeq.prems have "rmatch fl a (rmatch fl b k) s = Some t" by simp
  from RSeq.IH(1) [OF this] obtain u where u: "steps fl a s u" "rmatch fl b k u = Some t" by blast
  from RSeq.IH(2) [OF u(2)] obtain v where "steps fl b u v" "k v = Some t" by blast
  with u show ?case by (auto intro: steps.sSeq)
next
  case (RAlt a b)
  show ?case
  proof (cases "rmatch fl a k s")
    case None
    with RAlt.prems have "rmatch fl b k s = Some t" by simp
    from RAlt.IH(2) [OF this] show ?thesis by (auto intro: steps.sAlt2)
  next
    case (Some r)
    with RAlt.prems have "rmatch fl a k s = Some t" by simp
    from RAlt.IH(1) [OF this] show ?thesis by (auto intro: steps.sAlt1)
  qed
next
  case (RStar a)
  from RStar.prems have "star_greedy (rmatch fl a) (length (ahead s)) k s = Some t" by simp
  then show ?case by (rule star_greedy_sound [rotated]) (rule RStar.IH)
next
  case (RLazyStar a)
  from RLazyStar.prems have "star_lazy (rmatch fl a) (length (ahead s)) k s = Some t" by simp
  then show ?case by (rule star_lazy_sound [rotated]) (rule RLazyStar.IH)
next
  case (RGroup i a)
  let ?K = "\<lambda>t. k (MState (lastChar t) (ahead t) (endIndex t)
                 ((i, take (endIndex t - endIndex s) (ahead s)) # captures t))"
  from RGroup.prems have "rmatch fl a ?K s = Some t" by simp
  from RGroup.IH [OF this] obtain u where "steps fl a s u" "?K u = Some t" by blast
  then show ?case by (auto intro: steps.sGroup)
next
  case RBol
  then show ?case by (auto split: option.splits if_splits intro: steps.sBol)
next
  case REol
  then show ?case by (auto split: list.splits if_splits intro: steps.sEol)
qed

text \<open>A match consumes a prefix of the input ahead and counts its characters.\<close>

lemma steps_consumes:
  "steps fl r s t \<Longrightarrow> \<exists>w. ahead s = w @ ahead t \<and> endIndex t = endIndex s + length w"
proof (induction rule: steps.induct)
  case (sLit w s t)
  from lit_matches_consumes [OF sLit] show ?case by auto
next
  case (sClass s c cs items)
  then show ?case by (intro exI [of _ "[c]"]) simp
next
  case (sSeq a s u b t)
  then obtain w v where "ahead s = w @ ahead u" "endIndex u = endIndex s + length w"
    "ahead u = v @ ahead t" "endIndex t = endIndex u + length v" by blast
  then show ?case by (intro exI [of _ "w @ v"]) simp
next
  case (sStarN a s u t)
  then obtain w v where "ahead s = w @ ahead u" "endIndex u = endIndex s + length w"
    "ahead u = v @ ahead t" "endIndex t = endIndex u + length v" by blast
  then show ?case by (intro exI [of _ "w @ v"]) simp
next
  case (sLazyN a s u t)
  then obtain w v where "ahead s = w @ ahead u" "endIndex u = endIndex s + length w"
    "ahead u = v @ ahead t" "endIndex t = endIndex u + length v" by blast
  then show ?case by (intro exI [of _ "w @ v"]) simp
qed auto

text \<open>Captures are only ever added, and every capture added is the text some run of the
  body of its group has consumed.\<close>

lemma steps_captures:
  "steps fl r s t \<Longrightarrow>
     \<exists>added. captures t = added @ captures s \<and>
       (\<forall>p \<in> set added. \<exists>b u v. is_group r (fst p) b \<and> steps fl b u v \<and> ahead u = snd p @ ahead v)"
proof (induction rule: steps.induct)
  case (sLit w s t)
  from lit_matches_consumes [OF sLit] show ?case by auto
next
  case (sSeq a s u b t)
  then obtain A B where A: "captures u = A @ captures s"
      "\<forall>p \<in> set A. \<exists>b u v. is_group a (fst p) b \<and> steps fl b u v \<and> ahead u = snd p @ ahead v"
    and B: "captures t = B @ captures u"
      "\<forall>p \<in> set B. \<exists>c u v. is_group b (fst p) c \<and> steps fl c u v \<and> ahead u = snd p @ ahead v"
    by blast
  show ?case
  proof (intro exI [of _ "B @ A"] conjI ballI)
    show "captures t = (B @ A) @ captures s" using A(1) B(1) by simp
  next
    fix p assume "p \<in> set (B @ A)"
    then consider "p \<in> set A" | "p \<in> set B" by auto
    then show "\<exists>c u v. is_group (RSeq a b) (fst p) c \<and> steps fl c u v \<and> ahead u = snd p @ ahead v"
    proof cases
      case 1
      with A(2) show ?thesis by fastforce
    next
      case 2
      with B(2) show ?thesis by fastforce
    qed
  qed
next
  case (sAlt1 a s t b)
  then show ?case by fastforce
next
  case (sAlt2 b s t a)
  then show ?case by fastforce
next
  case (sStarN a s u t)
  then obtain A B where A: "captures u = A @ captures s"
      "\<forall>p \<in> set A. \<exists>b u v. is_group a (fst p) b \<and> steps fl b u v \<and> ahead u = snd p @ ahead v"
    and B: "captures t = B @ captures u"
      "\<forall>p \<in> set B. \<exists>c u v. is_group (RStar a) (fst p) c \<and> steps fl c u v \<and> ahead u = snd p @ ahead v"
    by blast
  show ?case
  proof (intro exI [of _ "B @ A"] conjI ballI)
    show "captures t = (B @ A) @ captures s" using A(1) B(1) by simp
  next
    fix p assume "p \<in> set (B @ A)"
    then consider "p \<in> set A" | "p \<in> set B" by auto
    then show "\<exists>c u v. is_group (RStar a) (fst p) c \<and> steps fl c u v \<and> ahead u = snd p @ ahead v"
    proof cases
      case 1
      with A(2) show ?thesis by fastforce
    next
      case 2
      with B(2) show ?thesis by fastforce
    qed
  qed
next
  case (sLazyN a s u t)
  then obtain A B where A: "captures u = A @ captures s"
      "\<forall>p \<in> set A. \<exists>b u v. is_group a (fst p) b \<and> steps fl b u v \<and> ahead u = snd p @ ahead v"
    and B: "captures t = B @ captures u"
      "\<forall>p \<in> set B. \<exists>c u v. is_group (RLazyStar a) (fst p) c \<and> steps fl c u v \<and> ahead u = snd p @ ahead v"
    by blast
  show ?case
  proof (intro exI [of _ "B @ A"] conjI ballI)
    show "captures t = (B @ A) @ captures s" using A(1) B(1) by simp
  next
    fix p assume "p \<in> set (B @ A)"
    then consider "p \<in> set A" | "p \<in> set B" by auto
    then show "\<exists>c u v. is_group (RLazyStar a) (fst p) c \<and> steps fl c u v \<and> ahead u = snd p @ ahead v"
    proof cases
      case 1
      with A(2) show ?thesis by fastforce
    next
      case 2
      with B(2) show ?thesis by fastforce
    qed
  qed
next
  case (sGroup a s t i)
  then obtain A where A: "captures t = A @ captures s"
      "\<forall>p \<in> set A. \<exists>b u v. is_group a (fst p) b \<and> steps fl b u v \<and> ahead u = snd p @ ahead v"
    by blast
  from steps_consumes [OF sGroup.hyps] obtain w where
    w: "ahead s = w @ ahead t" "endIndex t = endIndex s + length w" by blast
  let ?g = "take (endIndex t - endIndex s) (ahead s)"
  from w have g: "?g = w" by simp
  show ?case
  proof (intro exI [of _ "(i, ?g) # A"] conjI ballI)
    show "captures (MState (lastChar t) (ahead t) (endIndex t) ((i, ?g) # captures t)) =
        ((i, ?g) # A) @ captures s"
      using A(1) by simp
  next
    fix p assume "p \<in> set ((i, ?g) # A)"
    then consider "p = (i, ?g)" | "p \<in> set A" by auto
    then show "\<exists>c u v. is_group (RGroup i a) (fst p) c \<and> steps fl c u v \<and> ahead u = snd p @ ahead v"
    proof cases
      case 1
      have "is_group (RGroup i a) i a" by simp
      moreover note sGroup.hyps
      moreover from w g have "ahead s = ?g @ ahead t" by simp
      ultimately show ?thesis unfolding 1 fst_conv snd_conv by blast
    next
      case 2
      with A(2) show ?thesis by fastforce
    qed
  qed
qed auto

lemma steps_captures_mono: "steps fl r s t \<Longrightarrow> set (captures s) \<subseteq> set (captures t)"
  using steps_captures [of fl r s t] by auto

lemma steps_sure_groups: "steps fl r s t \<Longrightarrow> sure_groups r \<subseteq> fst ` set (captures t)"
proof (induction rule: steps.induct)
  case (sSeq a s u b t)
  from steps_captures_mono [OF sSeq.hyps(2)] have "fst ` set (captures u) \<subseteq> fst ` set (captures t)"
    by auto
  with sSeq.IH show ?case by auto
next
  case (sGroup a s t i)
  then show ?case by auto
qed auto

text \<open>A successful search is a match from some position, with no capture before it.\<close>

lemma search_from_steps:
  "search_from fl r p s = Some m \<Longrightarrow>
     \<exists>q rest t. steps fl r (MState q rest 0 []) t \<and> groups m = captures t \<and>
       matched m = take (endIndex t) rest"
proof (induction s arbitrary: p)
  case Nil
  then obtain t where t: "rmatch fl r Some (MState p [] 0 []) = Some t" "m = Match [] (captures t)"
    by (auto split: option.splits)
  from rmatch_sound [OF t(1)] have "steps fl r (MState p [] 0 []) t" by simp
  with t(2) show ?case by (intro exI [of _ p] exI [of _ "[]"] exI [of _ t]) simp
next
  case (Cons c cs)
  show ?case
  proof (cases "rmatch fl r Some (MState p (c # cs) 0 [])")
    case None
    with Cons.prems have "search_from fl r (Some c) cs = Some m" by simp
    from Cons.IH [OF this] show ?thesis .
  next
    case (Some t)
    with Cons.prems have m: "m = Match (take (endIndex t) (c # cs)) (captures t)" by simp
    from rmatch_sound [OF Some] have "steps fl r (MState p (c # cs) 0 []) t" by simp
    with m show ?thesis by (intro exI [of _ p] exI [of _ "c # cs"] exI [of _ t]) simp
  qed
qed

lemma capture_exists:
  assumes "js_match jd (fl, r) = Some m" and "i \<in> sure_groups r"
  shows "\<exists>g. capture m i = Some g"
proof -
  from assms(1) obtain q rest t where t: "steps fl r (MState q rest 0 []) t" "groups m = captures t"
    using search_from_steps [of fl r None jd m] by (auto simp add: js_match_def)
  from steps_sure_groups [OF t(1)] assms(2) t(2) have "i \<in> fst ` set (groups m)" by auto
  then show ?thesis
    by (cases "map_of (groups m) i") (auto simp add: capture_def map_of_eq_None_iff)
qed

lemma capture_content:
  assumes "js_match jd (fl, r) = Some m" and "capture m i = Some g"
  shows "\<exists>b u v. is_group r i b \<and> steps fl b u v \<and> ahead u = g @ ahead v"
proof -
  from assms(1) obtain q rest t where t: "steps fl r (MState q rest 0 []) t" "groups m = captures t"
    using search_from_steps [of fl r None jd m] by (auto simp add: js_match_def)
  from steps_captures [OF t(1)] have
    all: "\<forall>p \<in> set (captures t). \<exists>b u v. is_group r (fst p) b \<and> steps fl b u v \<and> ahead u = snd p @ ahead v"
    by auto
  from assms(2) t(2) have "(i, g) \<in> set (captures t)"
    by (auto simp add: capture_def dest: map_of_SomeD)
  with all show ?thesis by fastforce
qed

section \<open>Properties of the sub-extractors\<close>

subsection \<open>Characters and numbers\<close>

lemma digit_not_space: "isDigitChar c \<Longrightarrow> \<not> isSpaceChar c"
  by (auto simp add: isDigitChar_def isSpaceChar_def)

lemma digit_not_sign: "isDigitChar c \<Longrightarrow> c \<noteq> CHR ''-'' \<and> c \<noteq> CHR ''+''"
  by (auto simp add: isDigitChar_def)

lemma digitValue_nonneg: "isDigitChar c \<Longrightarrow> 0 \<le> digitValue c"
  by (simp add: isDigitChar_def digitValue_def)

lemma digitsValue_nonneg: "list_all isDigitChar ds \<Longrightarrow> 0 \<le> acc \<Longrightarrow> 0 \<le> digitsValue acc ds"
  by (induction ds arbitrary: acc) (simp_all add: digitValue_nonneg)

lemma parseInt_digits:
  assumes "list_all isDigitChar g" and "g \<noteq> []"
  shows "\<exists>n. parseInt g = Num n \<and> 0 \<le> n"
proof -
  from assms obtain c cs where g: "g = c # cs" by (cases g) auto
  with assms(1) have c: "isDigitChar c" by simp
  have drop: "dropWhile isSpaceChar g = g"
    using g digit_not_space [OF c] by simp
  have tw: "takeWhile isDigitChar g = g"
    using assms(1) by (simp add: list_all_iff)
  have "parseInt g = parseDigits g"
    using drop g digit_not_sign [OF c] by (simp add: parseInt_def)
  also have "\<dots> = Num (digitsValue 0 g)"
    using tw g by (simp add: parseDigits_def)
  finally show ?thesis
    using digitsValue_nonneg [OF assms(1), of 0] by simp
qed

lemma upper_of_lower: "isLowerChar d \<Longrightarrow> isUpperChar (upperChar d)"
proof (cases d)
  case (Char b0 b1 b2 b3 b4 b5 b6 b7)
  assume "isLowerChar d"
  then show ?thesis
    unfolding Char by (simp add: char_eval)
qed

lemma upper_image_not_space: "isUpperChar (upperChar c) \<Longrightarrow> \<not> isSpaceChar c"
proof (cases c)
  case (Char b0 b1 b2 b3 b4 b5 b6 b7)
  assume "isUpperChar (upperChar c)"
  then show ?thesis
    unfolding Char by (auto simp add: char_eval)
qed

lemma same_letter_not_space:
  "canonicalize True c = canonicalize True d \<Longrightarrow> isLowerChar d \<Longrightarrow> \<not> isSpaceChar c"
  using upper_of_lower [of d] upper_image_not_space [of c] by (simp add: canonicalize_def)

subsection \<open>What the groups of the patterns capture\<close>

inductive_cases steps_RClassE: "steps fl (RClass items) s t"
inductive_cases steps_RSeqE: "steps fl (RSeq a b) s t"
inductive_cases steps_RAltE: "steps fl (RAlt a b) s t"
inductive_cases steps_RLitE: "steps fl (RLit w) s t"

lemma steps_star_class:
  "steps fl r s t \<Longrightarrow> r = RStar (RClass items) \<Longrightarrow>
     \<exists>w. ahead s = w @ ahead t \<and> list_all (class_matches (ignoreCase fl) items) w"
proof (induction rule: steps.induct)
  case (sStar0 a s)
  then show ?case by simp
next
  case (sStarN a s u t)
  then have a: "a = RClass items" by simp
  from sStarN.hyps(1) obtain c cs where c: "ahead s = c # cs" "class_matches (ignoreCase fl) items c"
    "ahead u = cs"
    unfolding a by (auto elim: steps_RClassE)
  from sStarN.IH(2) [OF sStarN.prems] obtain w where
    "ahead u = w @ ahead t" "list_all (class_matches (ignoreCase fl) items) w" by blast
  with c show ?case by (intro exI [of _ "c # w"]) simp
qed simp_all

text \<open>\<^verbatim>\<open>(\d+)\<close> captures a non-empty run of digits.\<close>

lemma digits_captured:
  assumes "steps fl (rplus rdigit) u v" and "ahead u = g @ ahead v"
  shows "g \<noteq> [] \<and> list_all isDigitChar g"
proof -
  from assms(1) obtain x where x: "steps fl (RClass [CDigit]) u x" "steps fl (RStar (RClass [CDigit])) x v"
    by (auto simp add: rplus_def rdigit_def elim: steps_RSeqE)
  from x(1) obtain c cs where c: "ahead u = c # cs" "isDigitChar c" "ahead x = cs"
    by (auto elim: steps_RClassE)
  from steps_star_class [OF x(2) refl] obtain w where
    w: "ahead x = w @ ahead v" "list_all (class_matches (ignoreCase fl) [CDigit]) w" by blast
  from w(2) have "list_all isDigitChar w" by (simp add: list_all_iff)
  moreover have "g = c # w"
  proof -
    from c w(1) assms(2) have "g @ ahead v = (c # w) @ ahead v" by simp
    then show ?thesis by (simp only: append_same_eq)
  qed
  ultimately show ?thesis using c(2) by simp
qed

text \<open>An alternation of literal words that end in a letter, after whatever comes before
  it, captures a text whose last character is no white space.\<close>

lemma steps_ralts: "steps fl (ralts rs) s t \<Longrightarrow> \<exists>r \<in> set rs. steps fl r s t"
proof (induction rs rule: ralts.induct)
  case 1
  then show ?case by (auto elim: steps_RClassE)
next
  case (2 r)
  then show ?case by simp
next
  case (3 r q rs)
  from "3.prems" show ?case
  proof (simp, elim steps_RAltE)
    assume "steps fl r s t"
    then show "steps fl r s t \<or> steps fl q s t \<or> (\<exists>r \<in> set rs. steps fl r s t)" by simp
  next
    assume "steps fl (ralts (q # rs)) s t"
    from "3.IH" [OF this]
    show "steps fl r s t \<or> steps fl q s t \<or> (\<exists>r \<in> set rs. steps fl r s t)" by auto
  qed
qed

lemma list_all2_last: "list_all2 P xs ys \<Longrightarrow> ys \<noteq> [] \<Longrightarrow> P (last xs) (last ys)"
proof (induction rule: list_all2_induct)
  case Nil
  then show ?case by simp
next
  case (Cons x xs y ys)
  then show ?case by (cases ys) (auto simp add: list_all2_Nil2)
qed

lemma word_captured:
  assumes st: "steps fl (RSeq pre (ralts rs)) u v"
    and rs: "\<forall>r \<in> set rs. \<exists>w. r = RLit w \<and> w \<noteq> [] \<and> isLowerChar (last w)"
    and ic: "ignoreCase fl"
    and g: "ahead u = g @ ahead v"
  shows "g \<noteq> [] \<and> \<not> isSpaceChar (last g)"
proof -
  from st obtain x where x: "steps fl pre u x" "steps fl (ralts rs) x v"
    by (rule steps_RSeqE)
  from steps_ralts [OF x(2)] obtain r where r: "r \<in> set rs" "steps fl r x v" by blast
  from rs r(1) obtain w where w: "r = RLit w" "w \<noteq> []" "isLowerChar (last w)" by blast
  from r(2) have "lit_matches (ignoreCase fl) w x = Some v"
    unfolding w(1) by (rule steps_RLitE)
  with ic have "lit_matches True w x = Some v" by simp
  from lit_matches_consumes [OF this] obtain y where
    y: "ahead x = y @ ahead v" "length y = length w"
      "list_all2 (\<lambda>c d. canonicalize True c = canonicalize True d) y w" by blast
  from y(2) w(2) have yne: "y \<noteq> []" by auto
  from list_all2_last [OF y(3) w(2)]
  have "canonicalize True (last y) = canonicalize True (last w)" .
  then have ns: "\<not> isSpaceChar (last y)" using w(3) by (rule same_letter_not_space)
  from steps_consumes [OF x(1)] obtain z where "ahead u = z @ ahead x" by blast
  with y(1) g have "g @ ahead v = (z @ y) @ ahead v" by simp
  then have "g = z @ y" by (simp only: append_same_eq)
  with yne ns show ?thesis by simp
qed

lemma title_group:
  assumes m: "js_match jd (fl, r) = Some m"
    and sure: "1 \<in> sure_groups r"
    and ic: "ignoreCase fl"
    and body: "\<And>b. is_group r 1 b \<Longrightarrow> b = RSeq pre (ralts rs)"
    and rs: "\<forall>r \<in> set rs. \<exists>w. r = RLit w \<and> w \<noteq> [] \<and> isLowerChar (last w)"
  shows "\<exists>g. capture m 1 = Some g \<and> g \<noteq> [] \<and> \<not> isSpaceChar (last g)"
proof -
  from capture_exists [OF m sure] obtain g where g: "capture m 1 = Some g" by blast
  from capture_content [OF m g] obtain b u v where
    b: "is_group r 1 b" "steps fl b u v" "ahead u = g @ ahead v" by blast
  from body [OF b(1)] b(2) have "steps fl (RSeq pre (ralts rs)) u v" by simp
  from word_captured [OF this rs ic b(3)] g show ?thesis by simp
qed

lemma digit_group:
  assumes m: "js_match jd (fl, r) = Some m"
    and sure: "1 \<in> sure_groups r"
    and body: "\<And>b. is_group r 1 b \<Longrightarrow> b = rplus rdigit"
  shows "\<exists>g. capture m 1 = Some g \<and> g \<noteq> [] \<and> list_all isDigitChar g"
proof -
  from capture_exists [OF m sure] obtain g where g: "capture m 1 = Some g" by blast
  from capture_content [OF m g] obtain b u v where
    b: "is_group r 1 b" "steps fl b u v" "ahead u = g @ ahead v" by blast
  from body [OF b(1)] b(2) have "steps fl (rplus rdigit) u v" by simp
  from digits_captured [OF this b(3)] g show ?thesis by simp
qed

lemmas pattern_defs = reps_def ropt_def rplus_def rlazy_plus_def rspace_def rdigit_def
  flags_i_def flags_im_def letters_spaces_def rupee_sign_def currency_def amount_digits_def k_suffix_def

lemma titlePattern1_group:
  assumes "js_match jd titlePattern1 = Some m"
  shows "\<exists>g. capture m 1 = Some g \<and> g \<noteq> [] \<and> \<not> isSpaceChar (last g)"
  by (rule title_group [where pre = "rplus letters_spaces" and
        rs = "[RLit ''intern'', RLit ''developer'', RLit ''engineer'', RLit ''analyst'',
               RLit ''designer'', RLit ''manager'', RLit ''executive'', RLit ''associate'']",
        OF assms [unfolded titlePattern1_def]])
    (simp_all add: pattern_defs char_eval)

lemma titlePattern2_group:
  assumes "js_match jd titlePattern2 = Some m"
  shows "\<exists>g. capture m 1 = Some g \<and> g \<noteq> [] \<and> \<not> isSpaceChar (last g)"
  by (rule title_group [where pre = "rplus letters_spaces" and
        rs = "[RLit ''intern'', RLit ''developer'', RLit ''engineer'', RLit ''analyst'',
               RLit ''designer'', RLit ''manager'']",
        OF assms [unfolded titlePattern2_def]])
    (simp_all add: pattern_defs char_eval)

lemma titlePattern3_group:
  assumes "js_match jd titlePattern3 = Some m"
  shows "\<exists>g. capture m 1 = Some g \<and> g \<noteq> [] \<and> \<not> isSpaceChar (last g)"
  by (rule title_group [where pre = "rplus letters_spaces" and
        rs = "[RLit ''intern'', RLit ''developer'', RLit ''engineer'', RLit ''analyst'',
               RLit ''designer'', RLit ''manager'', RLit ''executive'']",
        OF assms [unfolded titlePattern3_def]])
    (simp_all add: pattern_defs char_eval)

lemma intakePattern1_group:
  assumes "js_match jd intakePattern1 = Some m"
  shows "\<exists>g. capture m 1 = Some g \<and> g \<noteq> [] \<and> list_all isDigitChar g"
  by (rule digit_group [OF assms [unfolded intakePattern1_def]]) (simp_all add: pattern_defs)

lemma intakePattern2_group:
  assumes "js_match jd intakePattern2 = Some m"
  shows "\<exists>g. capture m 1 = Some g \<and> g \<noteq> [] \<and> list_all isDigitChar g"
  by (rule digit_group [OF assms [unfolded intakePattern2_def]]) (simp_all add: pattern_defs)

lemma intakePattern3_group:
  assumes "js_match jd intakePattern3 = Some m"
  shows "\<exists>g. capture m 1 = Some g \<and> g \<noteq> [] \<and> list_all isDigitChar g"
  by (rule digit_group [OF assms [unfolded intakePattern3_def]]) (simp_all add: pattern_defs)

lemma stipendPattern1_group:
  assumes "js_match jd stipendPattern1 = Some m"
  shows "\<exists>g. capture m 1 = Some g"
  by (rule capture_exists [OF assms [unfolded stipendPattern1_def]]) (simp add: pattern_defs)

lemma stipendPattern2_group:
  assumes "js_match jd stipendPattern2 = Some m"
  shows "\<exists>g. capture m 1 = Some g"
  by (rule capture_exists [OF assms [unfolded stipendPattern2_def]]) (simp add: pattern_defs)

subsection \<open>The sub-extractors never fail\<close>

lemma first_match_Some: "first_match jd ps = Some m \<Longrightarrow> \<exists>p \<in> set ps. js_match jd p = Some m"
  by (induction ps) (auto split: option.splits)

lemma collapse_spaces_nonempty: "s \<noteq> [] \<Longrightarrow> collapse_spaces s \<noteq> []"
  by (cases s) (simp_all add: collapse_spaces_def)

lemma split_space_nonempty: "split_space s \<noteq> []"
  by (induction s) (auto split: list.splits)

lemma titleCase_nonempty: "s \<noteq> [] \<Longrightarrow> titleCase s \<noteq> []"
proof (cases s)
  case Nil
  assume "s \<noteq> []"
  with Nil show ?thesis by simp
next
  case (Cons c cs)
  obtain w ws where ws: "split_space cs = w # ws"
    using split_space_nonempty [of cs] by (cases "split_space cs") auto
  show ?thesis
    unfolding Cons titleCase_def using ws by (cases ws) auto
qed

lemma trim_nonempty: "g \<noteq> [] \<Longrightarrow> \<not> isSpaceChar (last g) \<Longrightarrow> trim g \<noteq> []"
proof -
  assume g: "g \<noteq> []" and ns: "\<not> isSpaceChar (last g)"
  from g have "last g \<in> set g" by simp
  with ns have "\<not> list_all isSpaceChar g" by (auto simp add: list_all_iff)
  then show ?thesis by (simp add: trim_empty_iff)
qed

lemma title_of_match_ok:
  assumes "js_match jd p = Some m" and "p \<in> set titlePatterns"
  shows "\<exists>t. title_of_match m = Inr t \<and> t \<noteq> []"
proof -
  from assms have "\<exists>g. capture m 1 = Some g \<and> g \<noteq> [] \<and> \<not> isSpaceChar (last g)"
    using titlePattern1_group titlePattern2_group titlePattern3_group
    by (auto simp add: titlePatterns_def)
  then obtain g where g: "capture m 1 = Some g" "g \<noteq> []" "\<not> isSpaceChar (last g)" by blast
  from g(2,3) have "titleCase (collapse_spaces (trim g)) \<noteq> []"
    by (intro titleCase_nonempty collapse_spaces_nonempty trim_nonempty)
  with g(1) show ?thesis by (simp add: title_of_match_def)
qed

lemma fallback_title_nonempty: "fallback_title l \<noteq> []"
  by (simp add: fallback_title_def)

lemma extract_title_ok: "\<exists>t. extract_title jd = Inr t \<and> t \<noteq> []"
proof (cases "first_match jd titlePatterns")
  case None
  then show ?thesis by (simp add: extract_title_def fallback_title_nonempty)
next
  case (Some m)
  from first_match_Some [OF Some] obtain p where "p \<in> set titlePatterns" "js_match jd p = Some m"
    by blast
  from title_of_match_ok [OF this(2,1)] obtain t where "title_of_match m = Inr t" "t \<noteq> []" by blast
  with Some show ?thesis by (simp add: extract_title_def)
qed

lemma extract_stipend_ok: "\<exists>s. extract_stipend jd = Inr s"
proof (cases "first_match jd stipendPatterns")
  case None
  then show ?thesis by (simp add: extract_stipend_def)
next
  case (Some m)
  from first_match_Some [OF Some] have "\<exists>g. capture m 1 = Some g"
    using stipendPattern1_group stipendPattern2_group by (auto simp add: stipendPatterns_def)
  then obtain g where "capture m 1 = Some g" by blast
  with Some show ?thesis by (simp add: extract_stipend_def stipend_of_match_def Let_def)
qed

lemma intake_of_match_ok:
  assumes "js_match jd p = Some m" and "p \<in> set intakePatterns"
  shows "\<exists>n. intake_of_match m = Num n \<and> 1 \<le> n"
proof -
  from assms have "\<exists>g. capture m 1 = Some g \<and> g \<noteq> [] \<and> list_all isDigitChar g"
    using intakePattern1_group intakePattern2_group intakePattern3_group
    by (auto simp add: intakePatterns_def)
  then obtain g where g: "capture m 1 = Some g" "g \<noteq> []" "list_all isDigitChar g" by blast
  from parseInt_digits [OF g(3,2)] obtain n where n: "parseInt g = Num n" "0 \<le> n" by blast
  show ?thesis
  proof (cases "n = 0")
    case True
    with g(1) n show ?thesis by (simp add: intake_of_match_def truthyNumber_def)
  next
    case False
    with g(1) n show ?thesis by (simp add: intake_of_match_def truthyNumber_def)
  qed
qed

lemma extract_intake_ok: "\<exists>n. extract_intake jd = Num n \<and> 1 \<le> n"
proof (cases "first_match jd intakePatterns")
  case None
  then show ?thesis by (simp add: extract_intake_def)
next
  case (Some m)
  from first_match_Some [OF Some] obtain p where "p \<in> set intakePatterns" "js_match jd p = Some m"
    by blast
  from intake_of_match_ok [OF this(2,1)] Some show ?thesis by (simp add: extract_intake_def)
qed

text \<open>So the analysis returns a result for every document, put together from what the
  sub-extractors return.\<close>

lemma analysis_result:
  "\<exists>r. analyzeJobDescription jd = Inr r \<and>
       extract_title jd = Inr (result_title r) \<and>
       result_skills r = take 10 (extract_skills jd) \<and>
       result_location r = extract_location jd \<and>
       result_intake r = minNumber (extract_intake jd) 100 \<and>
       extract_stipend jd = Inr (result_stipend r) \<and>
       result_perks r = extract_perks jd"
proof -
  from extract_title_ok obtain t where t: "extract_title jd = Inr t" by blast
  from extract_stipend_ok obtain s where s: "extract_stipend jd = Inr s" by blast
  show ?thesis by (simp add: analyzeJobDescription_def t s)
qed

subsection \<open>The skill scan\<close>

lemma skills_loop_filter:
  "distinct (map formatSkill ks) \<Longrightarrow> set (map formatSkill ks) \<inter> set acc = {} \<Longrightarrow>
     skills_loop l acc ks = acc @ map formatSkill (filter (\<lambda>k. str_includes l (toLowerCase k)) ks)"
proof (induction ks arbitrary: acc)
  case Nil
  then show ?case by simp
next
  case (Cons k ks)
  from Cons.prems have fresh: "formatSkill k \<notin> set acc" by auto
  show ?case
  proof (cases "str_includes l (toLowerCase k)")
    case True
    from Cons.prems have "distinct (map formatSkill ks)"
      and "set (map formatSkill ks) \<inter> set (acc @ [formatSkill k]) = {}" by auto
    from Cons.IH [OF this] True fresh show ?thesis by simp
  next
    case False
    from Cons.prems have "distinct (map formatSkill ks)"
      and "set (map formatSkill ks) \<inter> set acc = {}" by auto
    from Cons.IH [OF this] False show ?thesis by simp
  qed
qed

text \<open>The vocabulary as the result shows it. No two keywords are formatted alike, so the
  check for a repeated entry never fires.\<close>

lemma formatted_vocabulary:
  "map formatSkill SKILL_KEYWORDS =
     [''React'', ''Angular'', ''Vue'', ''Javascript'', ''Typescript'', ''Python'', ''Java'', ''Node.js'',
      ''Nodejs'', ''Express'', ''Mongodb'', ''SQL'', ''Mysql'', ''Postgresql'', ''AWS'', ''Docker'',
      ''Kubernetes'', ''Git'', ''HTML'', ''CSS'', ''Tailwind'', ''Figma'', ''Photoshop'', ''Excel'',
      ''Power Bi'', ''Tableau'', ''Machine Learning'', ''ML'', ''AI'', ''Data Analysis'', ''Data Science'',
      ''Communication'', ''Teamwork'', ''Problem Solving'', ''Agile'', ''Scrum'', ''API'', ''Rest'',
      ''Graphql'', ''C++'', ''C#'', ''.net'', ''Flutter'', ''React Native'', ''Swift'', ''Kotlin'',
      ''Android'', ''Ios'', ''Linux'', ''Devops'', ''Ci/cd'', ''Testing'', ''QA'', ''Selenium'']"
  by (simp add: SKILL_KEYWORDS_def formatSkill_def upperTokens_def toLowerCase_def toUpperCase_def char_eval)

lemma formatted_vocabulary_distinct: "distinct (map formatSkill SKILL_KEYWORDS)"
  unfolding formatted_vocabulary by simp

lemma extract_skills_filter:
  "extract_skills jd =
     map formatSkill (filter (\<lambda>k. str_includes (toLowerCase jd) (toLowerCase k)) SKILL_KEYWORDS)"
  using skills_loop_filter [OF formatted_vocabulary_distinct, of "[]" "toLowerCase jd"]
  by (simp add: extract_skills_def)

section \<open>The extractor on documents\<close>

subsection \<open>Runs on example documents\<close>

lemma stipend_15000: "extract_stipend ''stipend: 15000'' = Inr (Some (Num 150))"
  by (simp only: run_rules cong: run_congs; simp)

lemma stipend_15k: "extract_stipend ''stipend: 15k per month'' = Inr (Some (Num 15000))"
  by (simp only: run_rules cong: run_congs; simp)

lemma stipend_rs: "extract_stipend ''rs 15000 per month'' = Inr (Some (Num 15000))"
  by (simp only: run_rules cong: run_congs; simp)

lemma stipend_posting:
  "extract_stipend ''We are looking for a marketing intern to join our growing team this summer. Monthly stipend: 15000 for the selected candidate.'' =
     Inr (Some (Num 150))"
  by (simp only: run_rules cong: run_congs; simp)

lemma location_Remote: "extract_location ''Remote'' = []"
  by (simp only: run_rules cong: run_congs; simp)

lemma location_WFH: "extract_location ''WFH'' = []"
  by (simp only: run_rules cong: run_congs; simp)

lemma location_home: "extract_location ''work from home (flexible)'' = []"
  by (simp only: run_rules cong: run_congs; simp)

lemma location_remote: "extract_location ''remote'' = ''Remote''"
  by (simp only: run_rules cong: run_congs; simp)

lemma location_city:
  "js_match ''Our team sits in MUMBAI, India'' locationPattern1 = None \<and>
   js_match ''Our team sits in MUMBAI, India'' locationPattern2 =
     Some (Match ''MUMBAI, India'' [(2, ''India''), (1, ''MUMBAI'')]) \<and>
   extract_location ''Our team sits in MUMBAI, India'' = ''Mumbai''"
  by (simp only: run_rules cong: run_congs; simp)

lemma stipend_absent: "extract_stipend ''Join our team today'' = Inr None"
  by (simp only: run_rules cong: run_congs; simp)

lemma location_posting:
  "extract_location ''Join our Remote team as a marketing intern. You will help with campaigns and social media content every week!'' = []"
  by (simp only: run_rules cong: run_congs; simp)

lemma intake_150: "first_match ''150 positions available'' intakePatterns = Some (Match ''150 positions'' [(1, ''150'')])"
  by (simp only: run_rules cong: run_congs; simp)

lemma intake_none: "first_match ''Join our team today'' intakePatterns = None"
  by (simp only: run_rules cong: run_congs; simp)

lemma title_two_1:
  "js_match ''Role: data analyst. We are hiring a senior engineer'' titlePattern1 =
     Some (Match ''hiring a senior engineer'' [(1, ''senior engineer'')])"
  by (simp only: run_rules cong: run_congs; simp)

lemma title_two_2:
  "js_match ''Role: data analyst. We are hiring a senior engineer'' titlePattern2 =
     Some (Match ''Role: data analyst'' [(1, ''data analyst'')])"
  by (simp only: run_rules cong: run_congs; simp)

lemma title_posting:
  "extract_title ''Our studio wants help with brand design and marketing campaigns this summer; students of any year are welcome to apply.'' = Inr ''Marketing Intern''"
  by (simp only: run_rules cong: run_congs; simp)

lemma intake_posting:
  "extract_intake ''Our studio wants help with brand design and marketing campaigns this summer; students of any year are welcome to apply.'' = Num 1"
  by (simp only: run_rules cong: run_congs; simp)

lemma skills_fifteen:
  "filter (\<lambda>k. str_includes (toLowerCase ''react angular vue javascript typescript python java node.js nodejs express mongodb sql mysql postgresql aws react'') (toLowerCase k)) SKILL_KEYWORDS =
    [''react'', ''angular'', ''vue'', ''javascript'', ''typescript'', ''python'', ''java'', ''node.js'',
     ''nodejs'', ''express'', ''mongodb'', ''sql'', ''mysql'', ''postgresql'', ''aws'']"
  by (simp only: run_rules SKILL_KEYWORDS_def cong: run_congs; simp)

lemma title_two_result: "title_of_match (Match ''hiring a senior engineer'' [(1, ''senior engineer'')]) = Inr ''Senior Engineer''"
  by (simp only: run_rules cong: run_congs; simp)

lemma title_sales_1: "js_match ''Sales manager wanted. Role: data analyst'' titlePattern1 = None"
  by (simp only: run_rules cong: run_congs; simp)

lemma title_sales_2:
  "js_match ''Sales manager wanted. Role: data analyst'' titlePattern2 =
     Some (Match ''Role: data analyst'' [(1, ''data analyst'')])"
  by (simp only: run_rules cong: run_congs; simp)

lemma title_sales_3:
  "js_match ''Sales manager wanted. Role: data analyst'' titlePattern3 =
     Some (Match ''Sales manager'' [(1, ''Sales manager'')])"
  by (simp only: run_rules cong: run_congs; simp)

lemma title_sales_result: "title_of_match (Match ''Role: data analyst'' [(1, ''data analyst'')]) = Inr ''Data Analyst''"
  by (simp only: run_rules cong: run_congs; simp)

lemma title_fallback_software:
  "js_match ''2 software internships, frontend'' titlePattern1 = None \<and> js_match ''2 software internships, frontend'' titlePattern2 = None \<and>
   js_match ''2 software internships, frontend'' titlePattern3 = None \<and>
   fallback_title (toLowerCase ''2 software internships, frontend'') = ''Software Development Intern''"
  by (simp only: run_rules cong: run_congs; simp)

lemma title_fallback_frontend:
  "js_match ''Frontend and backend work'' titlePattern1 = None \<and> js_match ''Frontend and backend work'' titlePattern2 = None \<and>
   js_match ''Frontend and backend work'' titlePattern3 = None \<and>
   fallback_title (toLowerCase ''Frontend and backend work'') = ''Frontend Developer''"
  by (simp only: run_rules cong: run_congs; simp)

lemma title_fallback_backend:
  "js_match ''Backend and fullstack work'' titlePattern1 = None \<and> js_match ''Backend and fullstack work'' titlePattern2 = None \<and>
   js_match ''Backend and fullstack work'' titlePattern3 = None \<and>
   fallback_title (toLowerCase ''Backend and fullstack work'') = ''Backend Developer''"
  by (simp only: run_rules cong: run_congs; simp)

lemma title_fallback_fullstack:
  "js_match ''Fullstack data science work'' titlePattern1 = None \<and> js_match ''Fullstack data science work'' titlePattern2 = None \<and>
   js_match ''Fullstack data science work'' titlePattern3 = None \<and>
   fallback_title (toLowerCase ''Fullstack data science work'') = ''Full Stack Developer''"
  by (simp only: run_rules cong: run_congs; simp)

lemma title_fallback_full_stack:
  "js_match ''Full stack and marketing'' titlePattern1 = None \<and> js_match ''Full stack and marketing'' titlePattern2 = None \<and>
   js_match ''Full stack and marketing'' titlePattern3 = None \<and>
   fallback_title (toLowerCase ''Full stack and marketing'') = ''Full Stack Developer''"
  by (simp only: run_rules cong: run_congs; simp)

lemma title_fallback_data_analyst:
  "js_match ''1 data analyst, data science'' titlePattern1 = None \<and> js_match ''1 data analyst, data science'' titlePattern2 = None \<and>
   js_match ''1 data analyst, data science'' titlePattern3 = None \<and>
   fallback_title (toLowerCase ''1 data analyst, data science'') = ''Data Analyst''"
  by (simp only: run_rules cong: run_congs; simp)

lemma title_fallback_data_science:
  "js_match ''Data science and marketing'' titlePattern1 = None \<and> js_match ''Data science and marketing'' titlePattern2 = None \<and>
   js_match ''Data science and marketing'' titlePattern3 = None \<and>
   fallback_title (toLowerCase ''Data science and marketing'') = ''Data Science Intern''"
  by (simp only: run_rules cong: run_congs; simp)

lemma title_fallback_marketing:
  "js_match ''Marketing and design'' titlePattern1 = None \<and> js_match ''Marketing and design'' titlePattern2 = None \<and>
   js_match ''Marketing and design'' titlePattern3 = None \<and>
   fallback_title (toLowerCase ''Marketing and design'') = ''Marketing Intern''"
  by (simp only: run_rules cong: run_congs; simp)

lemma title_fallback_design:
  "js_match ''Design work'' titlePattern1 = None \<and> js_match ''Design work'' titlePattern2 = None \<and>
   js_match ''Design work'' titlePattern3 = None \<and>
   fallback_title (toLowerCase ''Design work'') = ''Design Intern''"
  by (simp only: run_rules cong: run_congs; simp)

lemma title_hello:
  "js_match ''hello world'' titlePattern1 = None \<and> js_match ''hello world'' titlePattern2 = None \<and>
   js_match ''hello world'' titlePattern3 = None \<and> fallback_title (toLowerCase ''hello world'') = ''Intern''"
  by (simp only: run_rules cong: run_congs; simp)

lemma location_Remote_patterns:
  "js_match ''Remote'' locationPattern1 = None \<and> js_match ''Remote'' locationPattern2 = None \<and>
   js_match ''Remote'' locationPattern3 = Some (Match ''Remote'' [])"
  by (simp only: run_rules cong: run_congs; simp)

text \<open>What a sub-extractor returns is what the analysis puts into its result.\<close>

lemma analysis_stipend:
  "extract_stipend jd = Inr s \<Longrightarrow> \<exists>r. analyzeJobDescription jd = Inr r \<and> result_stipend r = s"
  using analysis_result [of jd] by auto

lemma analysis_location:
  "extract_location jd = l \<Longrightarrow> \<exists>r. analyzeJobDescription jd = Inr r \<and> result_location r = l"
  using analysis_result [of jd] by auto

subsection \<open>Location\<close>

text \<open>
  C3. When the remote detector is the first location pattern to match, the location
  should be \<open>Remote\<close>, whatever the case of the trigger word. The code does this for the
  lower-case \<open>remote\<close> only: the detector matches up to case, but the test for \<open>remote\<close> and
  \<open>wfh\<close> in the matched text does not ignore case and does not know \<open>work from home\<close>, so
  \<open>Remote\<close>, \<open>WFH\<close> and \<open>work from home\<close> leave the location empty. A city match is
  title-cased, as in the last example.
\<close>

theorem remote_detector_case:
  "js_match ''Remote'' locationPattern1 = None
   \<and> js_match ''Remote'' locationPattern2 = None
   \<and> js_match ''Remote'' locationPattern3 = Some (Match ''Remote'' [])
   \<and> (\<exists>r. analyzeJobDescription ''Remote'' = Inr r \<and> result_location r = [])
   \<and> (\<exists>r. analyzeJobDescription ''WFH'' = Inr r \<and> result_location r = [])
   \<and> (\<exists>r. analyzeJobDescription ''work from home (flexible)'' = Inr r \<and> result_location r = [])
   \<and> (\<exists>r. analyzeJobDescription ''Join our Remote team as a marketing intern. You will help with campaigns and social media content every week!'' = Inr r
          \<and> result_location r = [])
   \<and> (\<exists>r. analyzeJobDescription ''remote'' = Inr r \<and> result_location r = ''Remote'')
   \<and> (\<exists>r. analyzeJobDescription ''Our team sits in MUMBAI, India'' = Inr r \<and> result_location r = ''Mumbai'')"
  using location_Remote_patterns location_city
  by (intro conjI analysis_location location_Remote location_WFH location_home location_posting
      location_remote) simp_all

subsection \<open>Stipend\<close>

text \<open>
  C5. \<open>stipend: 15k per month\<close> gives 15000, and so should \<open>stipend: 15000\<close>. The code
  gives 150 for the latter: in the first stipend pattern the alternative for digit groups
  with separators stands before the one for a plain run of digits and is content with the
  first three digits, after which nothing forces the match to go on. The second pattern,
  where a unit has to follow, reads the same run of digits in full, and a document without
  a stipend phrase leaves the stipend undefined.
\<close>

theorem stipend_plain_digits:
  "(\<exists>r. analyzeJobDescription ''stipend: 15000'' = Inr r \<and> result_stipend r = Some (Num 150))
   \<and> (\<exists>r. analyzeJobDescription ''We are looking for a marketing intern to join our growing team this summer. Monthly stipend: 15000 for the selected candidate.'' = Inr r
          \<and> result_stipend r = Some (Num 150))
   \<and> (\<exists>r. analyzeJobDescription ''stipend: 15k per month'' = Inr r \<and> result_stipend r = Some (Num 15000))
   \<and> (\<exists>r. analyzeJobDescription ''rs 15000 per month'' = Inr r \<and> result_stipend r = Some (Num 15000))
   \<and> (\<exists>r. analyzeJobDescription ''Join our team today'' = Inr r \<and> result_stipend r = None)"
  by (intro conjI analysis_stipend stipend_15000 stipend_posting stipend_15k stipend_rs stipend_absent)

subsection \<open>Intake\<close>

text \<open>
  C6. For every document the analysis returns a result whose intake is an integer between
  1 and 100: it is 1 when no intake pattern matches, and otherwise the count captured by
  the first pattern that matches, raised to 1 when it is 0 and lowered to 100 when it is
  more. \<open>150 positions available\<close> gives 100.
\<close>

theorem intake_clamped:
  "(\<exists>r n. analyzeJobDescription jd = Inr r \<and> result_intake r = Num n \<and> 1 \<le> n \<and> n \<le> 100 \<and>
      (first_match jd intakePatterns = None \<longrightarrow> n = 1) \<and>
      (\<forall>m g. first_match jd intakePatterns = Some m \<and> capture m 1 = Some g \<longrightarrow>
         (\<exists>c. parseInt g = Num c \<and> 0 \<le> c \<and> n = (if c = 0 then 1 else min c 100))))
   \<and> (\<exists>r. analyzeJobDescription ''150 positions available'' = Inr r \<and> result_intake r = Num 100)"
proof
  obtain r where r: "analyzeJobDescription jd = Inr r" "result_intake r = minNumber (extract_intake jd) 100"
    using analysis_result [of jd] by blast
  obtain k where k: "extract_intake jd = Num k" "1 \<le> k"
    using extract_intake_ok [of jd] by blast
  let ?n = "min k 100"
  from r(2) k(1) have n: "result_intake r = Num ?n" by (simp add: minNumber_def)
  have none: "?n = 1" if "first_match jd intakePatterns = None"
    using that k(1) by (simp add: extract_intake_def)
  have some: "\<exists>c. parseInt g = Num c \<and> 0 \<le> c \<and> ?n = (if c = 0 then 1 else min c 100)"
    if m: "first_match jd intakePatterns = Some m" and g: "capture m 1 = Some g" for m g
  proof -
    from first_match_Some [OF m] have "\<exists>g. capture m 1 = Some g \<and> g \<noteq> [] \<and> list_all isDigitChar g"
      using intakePattern1_group intakePattern2_group intakePattern3_group
      by (auto simp add: intakePatterns_def)
    with g have "g \<noteq> []" "list_all isDigitChar g" by auto
    from parseInt_digits [OF this(2,1)] obtain c where c: "parseInt g = Num c" "0 \<le> c" by blast
    from m g c(1) k(1) have "k = (if c = 0 then 1 else c)"
      by (simp add: extract_intake_def intake_of_match_def truthyNumber_def split: if_splits)
    with c show ?thesis by auto
  qed
  from r(1) n k(2) none some
  show "\<exists>r n. analyzeJobDescription jd = Inr r \<and> result_intake r = Num n \<and> 1 \<le> n \<and> n \<le> 100 \<and>
      (first_match jd intakePatterns = None \<longrightarrow> n = 1) \<and>
      (\<forall>m g. first_match jd intakePatterns = Some m \<and> capture m 1 = Some g \<longrightarrow>
         (\<exists>c. parseInt g = Num c \<and> 0 \<le> c \<and> n = (if c = 0 then 1 else min c 100)))"
    by (intro exI [of _ r] exI [of _ ?n]) auto
next
  have "extract_intake ''150 positions available'' = Num 150"
    by (simp only: extract_intake_def intake_150 option.case intake_of_match_def capture_def match_result.sel)
      (simp add: parseInt_def parseDigits_def isSpaceChar_Char isDigitChar_Char digitValue_def truthyNumber_def)
  then show "\<exists>r. analyzeJobDescription ''150 positions available'' = Inr r \<and> result_intake r = Num 100"
    using analysis_result [of "''150 positions available''"] by (auto simp add: minNumber_def)
qed

theorem intake_clamped_witness:
  "first_match ''Join our team today'' intakePatterns = None
   \<and> (\<exists>r. analyzeJobDescription ''Join our team today'' = Inr r \<and> result_intake r = Num 1)
   \<and> first_match ''150 positions available'' intakePatterns = Some (Match ''150 positions'' [(1, ''150'')])
   \<and> (\<exists>r. analyzeJobDescription ''150 positions available'' = Inr r \<and> result_intake r = Num 100)"
proof -
  from intake_clamped [of "''Join our team today''"] intake_none
  have "\<exists>r. analyzeJobDescription ''Join our team today'' = Inr r \<and> result_intake r = Num 1"
    by auto
  moreover from intake_clamped [of "''150 positions available''"]
  have "\<exists>r. analyzeJobDescription ''150 positions available'' = Inr r \<and> result_intake r = Num 100"
    by blast
  ultimately show ?thesis using intake_none intake_150 by simp
qed

subsection \<open>Skills\<close>

text \<open>
  C7. For every document the skill list of the result is the first ten, in the order of
  the vocabulary, of the keywords the lower-cased document contains, each formatted; so it
  has at most ten entries, no entry twice, and follows the vocabulary order. A document
  that names the first fifteen keywords of the vocabulary, one of them twice, yields the
  first ten of them.
\<close>

theorem skills_capped:
  "(\<exists>r. analyzeJobDescription jd = Inr r \<and>
      result_skills r =
        take 10 (map formatSkill (filter (\<lambda>k. str_includes (toLowerCase jd) (toLowerCase k)) SKILL_KEYWORDS)) \<and>
      length (result_skills r) =
        min 10 (length (filter (\<lambda>k. str_includes (toLowerCase jd) (toLowerCase k)) SKILL_KEYWORDS)) \<and>
      length (result_skills r) \<le> 10 \<and>
      distinct (result_skills r) \<and>
      subseq (result_skills r) (map formatSkill SKILL_KEYWORDS))
   \<and> (\<exists>r. analyzeJobDescription ''react angular vue javascript typescript python java node.js nodejs express mongodb sql mysql postgresql aws react'' = Inr r
          \<and> result_skills r =
              [''React'', ''Angular'', ''Vue'', ''Javascript'', ''Typescript'', ''Python'', ''Java'', ''Node.js'',
               ''Nodejs'', ''Express''])"
proof
  let ?found = "filter (\<lambda>k. str_includes (toLowerCase jd) (toLowerCase k)) SKILL_KEYWORDS"
  obtain r where r: "analyzeJobDescription jd = Inr r" "result_skills r = take 10 (extract_skills jd)"
    using analysis_result [of jd] by blast
  from r(2) have eq: "result_skills r = take 10 (map formatSkill ?found)"
    by (simp only: extract_skills_filter)
  have d: "distinct (map formatSkill ?found)"
    using formatted_vocabulary_distinct by (rule distinct_map_filter)
  have "subseq (take 10 (map formatSkill ?found)) (map formatSkill ?found)"
    by (rule prefix_imp_subseq) (rule take_is_prefix)
  moreover have "subseq (map formatSkill ?found) (map formatSkill SKILL_KEYWORDS)"
    by (rule subseq_map) simp
  ultimately have s: "subseq (take 10 (map formatSkill ?found)) (map formatSkill SKILL_KEYWORDS)"
    by (rule subseq_order.trans)
  from r(1) eq d s
  show "\<exists>r. analyzeJobDescription jd = Inr r \<and>
      result_skills r = take 10 (map formatSkill ?found) \<and>
      length (result_skills r) = min 10 (length ?found) \<and>
      length (result_skills r) \<le> 10 \<and>
      distinct (result_skills r) \<and>
      subseq (result_skills r) (map formatSkill SKILL_KEYWORDS)"
    by (intro exI [of _ r]) (simp add: min.commute)
next
  let ?doc = "''react angular vue javascript typescript python java node.js nodejs express mongodb sql mysql postgresql aws react''"
  have "take 10 (extract_skills ?doc) =
      [''React'', ''Angular'', ''Vue'', ''Javascript'', ''Typescript'', ''Python'', ''Java'', ''Node.js'',
       ''Nodejs'', ''Express'']"
    unfolding extract_skills_filter skills_fifteen
    by (simp add: formatSkill_def upperTokens_def toLowerCase_def toUpperCase_def char_eval)
  then show "\<exists>r. analyzeJobDescription ?doc = Inr r \<and>
      result_skills r =
        [''React'', ''Angular'', ''Vue'', ''Javascript'', ''Typescript'', ''Python'', ''Java'', ''Node.js'',
         ''Nodejs'', ''Express'']"
    using analysis_result [of ?doc] by auto
qed

subsection \<open>Title\<close>

text \<open>
  C8. For every document the analysis returns a result whose title comes from the first
  title pattern, in the order of the list, that matches the document, whether or not a
  later pattern matches as well. When no pattern matches, the title is looked up from the
  role keywords of the lower-cased document in this order, the first row that applies
  giving the title: \<open>software\<close> together with \<open>intern\<close>, \<open>frontend\<close>, \<open>backend\<close>, \<open>full stack\<close> or
  \<open>fullstack\<close>, \<open>data analyst\<close>, \<open>data science\<close>, \<open>marketing\<close>, \<open>design\<close>; with none of them the
  title is \<open>Intern\<close>.
\<close>

theorem title_first_pattern_wins:
  "(\<exists>r. analyzeJobDescription jd = Inr r \<and>
      (\<forall>m. js_match jd titlePattern1 = Some m \<longrightarrow> title_of_match m = Inr (result_title r)) \<and>
      (\<forall>m. js_match jd titlePattern1 = None \<and> js_match jd titlePattern2 = Some m \<longrightarrow>
         title_of_match m = Inr (result_title r)) \<and>
      (\<forall>m. js_match jd titlePattern1 = None \<and> js_match jd titlePattern2 = None \<and>
           js_match jd titlePattern3 = Some m \<longrightarrow>
         title_of_match m = Inr (result_title r)) \<and>
      (js_match jd titlePattern1 = None \<and> js_match jd titlePattern2 = None \<and>
         js_match jd titlePattern3 = None \<longrightarrow>
         result_title r = fallback_title (toLowerCase jd)))
   \<and> (str_includes l ''software'' \<and> str_includes l ''intern'' \<longrightarrow>
        fallback_title l = ''Software Development Intern'')
   \<and> (\<not> (str_includes l ''software'' \<and> str_includes l ''intern'') \<and> str_includes l ''frontend'' \<longrightarrow>
        fallback_title l = ''Frontend Developer'')
   \<and> (\<not> (str_includes l ''software'' \<and> str_includes l ''intern'') \<and> \<not> str_includes l ''frontend'' \<and>
        str_includes l ''backend'' \<longrightarrow>
        fallback_title l = ''Backend Developer'')
   \<and> (\<not> (str_includes l ''software'' \<and> str_includes l ''intern'') \<and> \<not> str_includes l ''frontend'' \<and>
        \<not> str_includes l ''backend'' \<and>
        (str_includes l ''full stack'' \<or> str_includes l ''fullstack'') \<longrightarrow>
        fallback_title l = ''Full Stack Developer'')
   \<and> (\<not> (str_includes l ''software'' \<and> str_includes l ''intern'') \<and> \<not> str_includes l ''frontend'' \<and>
        \<not> str_includes l ''backend'' \<and> \<not> str_includes l ''full stack'' \<and> \<not> str_includes l ''fullstack'' \<and>
        str_includes l ''data analyst'' \<longrightarrow>
        fallback_title l = ''Data Analyst'')
   \<and> (\<not> (str_includes l ''software'' \<and> str_includes l ''intern'') \<and> \<not> str_includes l ''frontend'' \<and>
        \<not> str_includes l ''backend'' \<and> \<not> str_includes l ''full stack'' \<and> \<not> str_includes l ''fullstack'' \<and>
        \<not> str_includes l ''data analyst'' \<and> str_includes l ''data science'' \<longrightarrow>
        fallback_title l = ''Data Science Intern'')
   \<and> (\<not> (str_includes l ''software'' \<and> str_includes l ''intern'') \<and> \<not> str_includes l ''frontend'' \<and>
        \<not> str_includes l ''backend'' \<and> \<not> str_includes l ''full stack'' \<and> \<not> str_includes l ''fullstack'' \<and>
        \<not> str_includes l ''data analyst'' \<and> \<not> str_includes l ''data science'' \<and>
        str_includes l ''marketing'' \<longrightarrow>
        fallback_title l = ''Marketing Intern'')
   \<and> (\<not> (str_includes l ''software'' \<and> str_includes l ''intern'') \<and> \<not> str_includes l ''frontend'' \<and>
        \<not> str_includes l ''backend'' \<and> \<not> str_includes l ''full stack'' \<and> \<not> str_includes l ''fullstack'' \<and>
        \<not> str_includes l ''data analyst'' \<and> \<not> str_includes l ''data science'' \<and>
        \<not> str_includes l ''marketing'' \<and> str_includes l ''design'' \<longrightarrow>
        fallback_title l = ''Design Intern'')
   \<and> (\<not> (str_includes l ''software'' \<and> str_includes l ''intern'') \<and> \<not> str_includes l ''frontend'' \<and>
        \<not> str_includes l ''backend'' \<and> \<not> str_includes l ''full stack'' \<and> \<not> str_includes l ''fullstack'' \<and>
        \<not> str_includes l ''data analyst'' \<and> \<not> str_includes l ''data science'' \<and>
        \<not> str_includes l ''marketing'' \<and> \<not> str_includes l ''design'' \<longrightarrow>
        fallback_title l = ''Intern'')"
proof (rule conjI)
  obtain r where r: "analyzeJobDescription jd = Inr r" "extract_title jd = Inr (result_title r)"
    using analysis_result [of jd] by blast
  have win: "title_of_match m = Inr (result_title r)"
    if fm: "first_match jd titlePatterns = Some m" for m
  proof -
    from first_match_Some [OF fm] obtain p where "p \<in> set titlePatterns" "js_match jd p = Some m"
      by blast
    from title_of_match_ok [OF this(2,1)] obtain t where t: "title_of_match m = Inr t" "t \<noteq> []"
      by blast
    with fm have "extract_title jd = Inr t" by (simp add: extract_title_def)
    with r(2) t(1) show ?thesis by simp
  qed
  have p1: "title_of_match m = Inr (result_title r)" if "js_match jd titlePattern1 = Some m" for m
    using that by (intro win) (simp add: titlePatterns_def)
  have p2: "title_of_match m = Inr (result_title r)"
    if "js_match jd titlePattern1 = None" "js_match jd titlePattern2 = Some m" for m
    using that by (intro win) (simp add: titlePatterns_def)
  have p3: "title_of_match m = Inr (result_title r)"
    if "js_match jd titlePattern1 = None" "js_match jd titlePattern2 = None"
      "js_match jd titlePattern3 = Some m" for m
    using that by (intro win) (simp add: titlePatterns_def)
  have p0: "result_title r = fallback_title (toLowerCase jd)"
    if "js_match jd titlePattern1 = None" "js_match jd titlePattern2 = None"
      "js_match jd titlePattern3 = None"
  proof -
    from that have "extract_title jd = Inr (fallback_title (toLowerCase jd))"
      by (simp add: extract_title_def titlePatterns_def)
    with r(2) show ?thesis by simp
  qed
  from r(1) p1 p2 p3 p0
  show "\<exists>r. analyzeJobDescription jd = Inr r \<and>
      (\<forall>m. js_match jd titlePattern1 = Some m \<longrightarrow> title_of_match m = Inr (result_title r)) \<and>
      (\<forall>m. js_match jd titlePattern1 = None \<and> js_match jd titlePattern2 = Some m \<longrightarrow>
         title_of_match m = Inr (result_title r)) \<and>
      (\<forall>m. js_match jd titlePattern1 = None \<and> js_match jd titlePattern2 = None \<and>
           js_match jd titlePattern3 = Some m \<longrightarrow>
         title_of_match m = Inr (result_title r)) \<and>
      (js_match jd titlePattern1 = None \<and> js_match jd titlePattern2 = None \<and>
         js_match jd titlePattern3 = None \<longrightarrow>
         result_title r = fallback_title (toLowerCase jd))"
    by (intro exI [of _ r]) blast
qed (simp_all add: fallback_title_def)

text \<open>Two documents that match two title patterns at once: in the first, the second
  pattern matches earlier in the text than the first pattern, and the first pattern gives
  the title all the same. Then documents that match no pattern, one for each row of the
  keyword table, each naming a keyword of a later row as well.\<close>

theorem title_first_pattern_wins_witness:
  "js_match ''Role: data analyst. We are hiring a senior engineer'' titlePattern1 =
     Some (Match ''hiring a senior engineer'' [(1, ''senior engineer'')])
   \<and> js_match ''Role: data analyst. We are hiring a senior engineer'' titlePattern2 =
     Some (Match ''Role: data analyst'' [(1, ''data analyst'')])
   \<and> (\<exists>r. analyzeJobDescription ''Role: data analyst. We are hiring a senior engineer'' = Inr r \<and>
          result_title r = ''Senior Engineer'')
   \<and> js_match ''Sales manager wanted. Role: data analyst'' titlePattern1 = None
   \<and> js_match ''Sales manager wanted. Role: data analyst'' titlePattern2 =
     Some (Match ''Role: data analyst'' [(1, ''data analyst'')])
   \<and> js_match ''Sales manager wanted. Role: data analyst'' titlePattern3 =
     Some (Match ''Sales manager'' [(1, ''Sales manager'')])
   \<and> (\<exists>r. analyzeJobDescription ''Sales manager wanted. Role: data analyst'' = Inr r \<and>
          result_title r = ''Data Analyst'')
   \<and> (\<exists>r. analyzeJobDescription ''2 software internships, frontend'' = Inr r \<and> result_title r = ''Software Development Intern'')
   \<and> (\<exists>r. analyzeJobDescription ''Frontend and backend work'' = Inr r \<and> result_title r = ''Frontend Developer'')
   \<and> (\<exists>r. analyzeJobDescription ''Backend and fullstack work'' = Inr r \<and> result_title r = ''Backend Developer'')
   \<and> (\<exists>r. analyzeJobDescription ''Fullstack data science work'' = Inr r \<and> result_title r = ''Full Stack Developer'')
   \<and> (\<exists>r. analyzeJobDescription ''Full stack and marketing'' = Inr r \<and> result_title r = ''Full Stack Developer'')
   \<and> (\<exists>r. analyzeJobDescription ''1 data analyst, data science'' = Inr r \<and> result_title r = ''Data Analyst'')
   \<and> (\<exists>r. analyzeJobDescription ''Data science and marketing'' = Inr r \<and> result_title r = ''Data Science Intern'')
   \<and> (\<exists>r. analyzeJobDescription ''Marketing and design'' = Inr r \<and> result_title r = ''Marketing Intern'')
   \<and> (\<exists>r. analyzeJobDescription ''Design work'' = Inr r \<and> result_title r = ''Design Intern'')
   \<and> (\<exists>r. analyzeJobDescription ''hello world'' = Inr r \<and> result_title r = ''Intern'')"
proof -
  have a: "\<exists>r. analyzeJobDescription ''Role: data analyst. We are hiring a senior engineer'' = Inr r \<and>
          result_title r = ''Senior Engineer''"
  proof -
    from title_first_pattern_wins [of "''Role: data analyst. We are hiring a senior engineer''", THEN conjunct1]
    obtain r where r: "analyzeJobDescription ''Role: data analyst. We are hiring a senior engineer'' = Inr r"
      "\<forall>m. js_match ''Role: data analyst. We are hiring a senior engineer'' titlePattern1 = Some m \<longrightarrow>
         title_of_match m = Inr (result_title r)"
      by blast
    from r(2) title_two_1
    have "title_of_match (Match ''hiring a senior engineer'' [(1, ''senior engineer'')]) = Inr (result_title r)"
      by blast
    with title_two_result have "result_title r = ''Senior Engineer''" by simp
    with r(1) show ?thesis by blast
  qed
  have b: "\<exists>r. analyzeJobDescription ''Sales manager wanted. Role: data analyst'' = Inr r \<and>
          result_title r = ''Data Analyst''"
  proof -
    from title_first_pattern_wins [of "''Sales manager wanted. Role: data analyst''", THEN conjunct1]
    obtain r where r: "analyzeJobDescription ''Sales manager wanted. Role: data analyst'' = Inr r"
      "\<forall>m. js_match ''Sales manager wanted. Role: data analyst'' titlePattern1 = None \<and>
           js_match ''Sales manager wanted. Role: data analyst'' titlePattern2 = Some m \<longrightarrow>
         title_of_match m = Inr (result_title r)"
      by blast
    from r(2) title_sales_1 title_sales_2
    have "title_of_match (Match ''Role: data analyst'' [(1, ''data analyst'')]) = Inr (result_title r)"
      by blast
    with title_sales_result have "result_title r = ''Data Analyst''" by simp
    with r(1) show ?thesis by blast
  qed
  have fb: "\<exists>r. analyzeJobDescription jd = Inr r \<and> result_title r = t"
    if none: "js_match jd titlePattern1 = None \<and> js_match jd titlePattern2 = None \<and>
       js_match jd titlePattern3 = None \<and> fallback_title (toLowerCase jd) = t" for jd t
  proof -
    from title_first_pattern_wins [of jd, THEN conjunct1]
    obtain r where r: "analyzeJobDescription jd = Inr r"
      "js_match jd titlePattern1 = None \<and> js_match jd titlePattern2 = None \<and>
         js_match jd titlePattern3 = None \<longrightarrow>
         result_title r = fallback_title (toLowerCase jd)"
      by blast
    from r(2) none have "result_title r = t" by simp
    with r(1) show ?thesis by blast
  qed
  show ?thesis
    by (intro conjI a b title_two_1 title_two_2 title_sales_1 title_sales_2 title_sales_3
        fb [OF title_fallback_software] fb [OF title_fallback_frontend] fb [OF title_fallback_backend]
        fb [OF title_fallback_fullstack] fb [OF title_fallback_full_stack]
        fb [OF title_fallback_data_analyst] fb [OF title_fallback_data_science]
        fb [OF title_fallback_marketing] fb [OF title_fallback_design] fb [OF title_hello])
qed

section \<open>Properties of the form\<close>

subsection \<open>Helper facts\<close>

lemma messages_distinct:
  "distinct [description_message, title_message, skills_message, location_message, intake_message]"
  by (simp add: description_message_def title_message_def skills_message_def location_message_def intake_message_def)

lemma handleSubmit_description: "(handleSubmit f = Inl description_message) = description_invalid f"
  using messages_distinct
  by (auto simp add: handleSubmit_def split: number.splits)

text \<open>The merge, field by field.\<close>

lemma applyExtraction_values:
  "title (applyExtraction r f) = (if result_title r \<noteq> [] then result_title r else title f)"
  "skills (applyExtraction r f) = (if result_skills r \<noteq> [] then result_skills r else skills f)"
  "locationLabel (applyExtraction r f) = (if result_location r \<noteq> [] then result_location r else locationLabel f)"
  "intake (applyExtraction r f) =
     (if truthyNumber (result_intake r) then numberToString (result_intake r) else intake f)"
  "stipend (applyExtraction r f) =
     (case result_stipend r of None \<Rightarrow> stipend f
      | Some n \<Rightarrow> if truthyNumber n then numberToString n else stipend f)"
  "perks (applyExtraction r f) =
     (case result_perks r of None \<Rightarrow> perks f | Some p \<Rightarrow> if p \<noteq> [] then p else perks f)"
  by (simp_all add: applyExtraction_def Let_def split: option.splits)

lemma applyExtraction_flags:
  "titleSuggested (applyExtraction r f) = (result_title r \<noteq> [] \<or> titleSuggested f)"
  "skillsSuggested (applyExtraction r f) = (result_skills r \<noteq> [] \<or> skillsSuggested f)"
  "locationSuggested (applyExtraction r f) = (result_location r \<noteq> [] \<or> locationSuggested f)"
  "intakeSuggested (applyExtraction r f) = (truthyNumber (result_intake r) \<or> intakeSuggested f)"
  "stipendSuggested (applyExtraction r f) =
     (case result_stipend r of None \<Rightarrow> stipendSuggested f
      | Some n \<Rightarrow> truthyNumber n \<or> stipendSuggested f)"
  "perksSuggested (applyExtraction r f) =
     (case result_perks r of None \<Rightarrow> perksSuggested f | Some p \<Rightarrow> p \<noteq> [] \<or> perksSuggested f)"
  by (simp_all add: applyExtraction_def Let_def split: option.splits)

lemma applyExtraction_others:
  "jobDescription (applyExtraction r f) = jobDescription f"
  "isAnalyzing (applyExtraction r f) = isAnalyzing f"
  "hasAnalyzed (applyExtraction r f) = hasAnalyzed f"
  "skillInput (applyExtraction r f) = skillInput f"
  "error (applyExtraction r f) = error f"
  "form.more (applyExtraction r f) = form.more f"
  by (simp_all add: applyExtraction_def Let_def split: option.splits)

lemma applyExtraction_twice: "applyExtraction r (applyExtraction r f) = applyExtraction r f"
  by (rule form.equality)
    (simp_all add: applyExtraction_values applyExtraction_flags applyExtraction_others split: option.splits)

subsection \<open>Edits and later analyses\<close>

text \<open>
  C1 (as amended). The form keeps no state that shields an edited field. Typing into the
  title, location, intake, stipend or perks input writes the value typed and clears the
  flag of that field; adding a skill appends the trimmed input and clears the skills flag
  when the input is non-empty and new, and changes nothing otherwise; removing a skill
  takes it out of the list and clears the skills flag only when the list had at most one
  entry. An analysis merged afterwards leaves an edited field, value and flag, as the
  edit left it only when its result has nothing truthy for that field (an empty title,
  location or perks, an empty skill list, an intake that is zero or not a number, a
  stipend that is absent, zero or not a number); otherwise the field takes the value of
  the result and its flag is set.
\<close>

theorem edit_then_extraction:
  "(title (titleOnChange v f) = v \<and> titleSuggested (titleOnChange v f) = False \<and>
    title (applyExtraction r (titleOnChange v f)) = (if result_title r \<noteq> [] then result_title r else v) \<and>
    titleSuggested (applyExtraction r (titleOnChange v f)) = (result_title r \<noteq> []))
   \<and> (locationLabel (locationOnChange v f) = v \<and> locationSuggested (locationOnChange v f) = False \<and>
    locationLabel (applyExtraction r (locationOnChange v f)) =
      (if result_location r \<noteq> [] then result_location r else v) \<and>
    locationSuggested (applyExtraction r (locationOnChange v f)) = (result_location r \<noteq> []))
   \<and> (intake (intakeOnChange v f) = v \<and> intakeSuggested (intakeOnChange v f) = False \<and>
    intake (applyExtraction r (intakeOnChange v f)) =
      (if truthyNumber (result_intake r) then numberToString (result_intake r) else v) \<and>
    intakeSuggested (applyExtraction r (intakeOnChange v f)) = truthyNumber (result_intake r))
   \<and> (stipend (stipendOnChange v f) = v \<and> stipendSuggested (stipendOnChange v f) = False \<and>
    stipend (applyExtraction r (stipendOnChange v f)) =
      (case result_stipend r of
         None \<Rightarrow> v
       | Some n \<Rightarrow> if truthyNumber n then numberToString n else v) \<and>
    stipendSuggested (applyExtraction r (stipendOnChange v f)) =
      (case result_stipend r of None \<Rightarrow> False | Some n \<Rightarrow> truthyNumber n))
   \<and> (perks (perksOnChange v f) = v \<and> perksSuggested (perksOnChange v f) = False \<and>
    perks (applyExtraction r (perksOnChange v f)) =
      (case result_perks r of None \<Rightarrow> v | Some p \<Rightarrow> if p \<noteq> [] then p else v) \<and>
    perksSuggested (applyExtraction r (perksOnChange v f)) =
      (case result_perks r of None \<Rightarrow> False | Some p \<Rightarrow> p \<noteq> []))
   \<and> (skills (handleAddSkill f) =
      (if trim (skillInput f) \<noteq> [] \<and> trim (skillInput f) \<notin> set (skills f)
       then skills f @ [trim (skillInput f)] else skills f) \<and>
    skillsSuggested (handleAddSkill f) =
      (if trim (skillInput f) \<noteq> [] \<and> trim (skillInput f) \<notin> set (skills f)
       then False else skillsSuggested f) \<and>
    skills (applyExtraction r (handleAddSkill f)) =
      (if result_skills r \<noteq> [] then result_skills r else skills (handleAddSkill f)) \<and>
    skillsSuggested (applyExtraction r (handleAddSkill f)) =
      (if result_skills r \<noteq> [] then True else skillsSuggested (handleAddSkill f)))
   \<and> (skills (handleRemoveSkill x f) = filter (\<lambda>s. s \<noteq> x) (skills f) \<and>
    skillsSuggested (handleRemoveSkill x f) =
      (if length (skills f) \<le> 1 then False else skillsSuggested f) \<and>
    skills (applyExtraction r (handleRemoveSkill x f)) =
      (if result_skills r \<noteq> [] then result_skills r else filter (\<lambda>s. s \<noteq> x) (skills f)) \<and>
    skillsSuggested (applyExtraction r (handleRemoveSkill x f)) =
      (if result_skills r \<noteq> [] then True else skillsSuggested (handleRemoveSkill x f)))"
proof (intro conjI)
  show "skills (handleAddSkill f) =
      (if trim (skillInput f) \<noteq> [] \<and> trim (skillInput f) \<notin> set (skills f)
       then skills f @ [trim (skillInput f)] else skills f)"
    by (simp add: handleAddSkill_def Let_def)
  show "skillsSuggested (handleAddSkill f) =
      (if trim (skillInput f) \<noteq> [] \<and> trim (skillInput f) \<notin> set (skills f)
       then False else skillsSuggested f)"
    by (simp add: handleAddSkill_def Let_def)
  show "skills (handleRemoveSkill x f) = filter (\<lambda>s. s \<noteq> x) (skills f)"
    by (simp add: handleRemoveSkill_def Let_def)
  show "skillsSuggested (handleRemoveSkill x f) =
      (if length (skills f) \<le> 1 then False else skillsSuggested f)"
    by (simp add: handleRemoveSkill_def Let_def)
  show "skills (applyExtraction r (handleRemoveSkill x f)) =
      (if result_skills r \<noteq> [] then result_skills r else filter (\<lambda>s. s \<noteq> x) (skills f))"
    by (simp add: applyExtraction_values handleRemoveSkill_def Let_def)
qed (simp_all add: applyExtraction_values applyExtraction_flags titleOnChange_def locationOnChange_def
    intakeOnChange_def stipendOnChange_def perksOnChange_def split: option.splits)

text \<open>A form with two suggested skills, edited and then merged with the result of a
  document in which the analysis finds nothing but its default title and intake: the
  typed title and intake are replaced and flagged, the typed location stays unflagged,
  and removing one of two skills keeps the skills flag.\<close>

theorem edit_then_extraction_witness:
  "title (applyExtraction
       \<lparr> result_title = ''Intern'', result_skills = [], result_location = [],
         result_intake = Num 1, result_stipend = None, result_perks = None \<rparr>
       (titleOnChange ''Data Engineer'' (initialForm\<lparr>skills := [''React'', ''Vue''], skillsSuggested := True\<rparr>)))
     = ''Intern''
   \<and> titleSuggested (applyExtraction
       \<lparr> result_title = ''Intern'', result_skills = [], result_location = [],
         result_intake = Num 1, result_stipend = None, result_perks = None \<rparr>
       (titleOnChange ''Data Engineer'' (initialForm\<lparr>skills := [''React'', ''Vue''], skillsSuggested := True\<rparr>)))
   \<and> locationLabel (applyExtraction
       \<lparr> result_title = ''Intern'', result_skills = [], result_location = [],
         result_intake = Num 1, result_stipend = None, result_perks = None \<rparr>
       (locationOnChange ''Data Engineer'' (initialForm\<lparr>skills := [''React'', ''Vue''], skillsSuggested := True\<rparr>)))
     = ''Data Engineer''
   \<and> locationSuggested (applyExtraction
       \<lparr> result_title = ''Intern'', result_skills = [], result_location = [],
         result_intake = Num 1, result_stipend = None, result_perks = None \<rparr>
       (locationOnChange ''Data Engineer'' (initialForm\<lparr>skills := [''React'', ''Vue''], skillsSuggested := True\<rparr>)))
     = False
   \<and> skills (handleRemoveSkill ''Vue'' (initialForm\<lparr>skills := [''React'', ''Vue''], skillsSuggested := True\<rparr>))
     = [''React'']
   \<and> skillsSuggested (handleRemoveSkill ''Vue'' (initialForm\<lparr>skills := [''React'', ''Vue''], skillsSuggested := True\<rparr>))"
  using edit_then_extraction [of "''Data Engineer''"
      "initialForm\<lparr>skills := [''React'', ''Vue''], skillsSuggested := True\<rparr>"
      "\<lparr> result_title = ''Intern'', result_skills = [], result_location = [],
         result_intake = Num 1, result_stipend = None, result_perks = None \<rparr>"
      "''Vue''"]
  by (simp add: initialForm_def)

text \<open>The claim as the specification words it fails: the user types a title, the next
  analysis finds no title pattern and falls back to a keyword title, and the merge writes
  that title over the one typed; first on the merge alone, then on a run of the handler
  on a document of 119 characters.\<close>

theorem confirmation_sticks_counterexample:
  "title (titleOnChange ''Data Engineer'' initialForm) = ''Data Engineer''
   \<and> title (applyExtraction
        \<lparr> result_title = ''Intern'', result_skills = [], result_location = [],
          result_intake = Num 1, result_stipend = None, result_perks = None \<rparr>
        (titleOnChange ''Data Engineer'' initialForm)) = ''Intern''
   \<and> title (titleOnChange ''Data Engineer''
        (initialForm\<lparr>jobDescription := ''Our studio wants help with brand design and marketing campaigns this summer; students of any year are welcome to apply.''\<rparr>))
       = ''Data Engineer''
   \<and> title (handleAnalyzeJD (titleOnChange ''Data Engineer''
        (initialForm\<lparr>jobDescription := ''Our studio wants help with brand design and marketing campaigns this summer; students of any year are welcome to apply.''\<rparr>)))
       = ''Marketing Intern''"
proof -
  let ?doc = "''Our studio wants help with brand design and marketing campaigns this summer; students of any year are welcome to apply.''"
  let ?g = "titleOnChange ''Data Engineer'' (initialForm\<lparr>jobDescription := ?doc\<rparr>)"
  obtain r where r: "analyzeJobDescription ?doc = Inr r" "extract_title ?doc = Inr (result_title r)"
    using analysis_result [of ?doc] by blast
  from r(2) title_posting have t: "result_title r = ''Marketing Intern''" by simp
  have jd: "jobDescription ?g = ?doc" by (simp add: titleOnChange_def)
  have "handleAnalyzeJD ?g =
      (applyExtraction r (?g\<lparr>error := []\<rparr>))\<lparr>hasAnalyzed := True, isAnalyzing := False\<rparr>"
    by (simp add: handleAnalyzeJD_def [of ?g] jd r(1))
  then have "title (handleAnalyzeJD ?g) = ''Marketing Intern''"
    by (simp add: applyExtraction_values t)
  then show ?thesis
    by (simp add: applyExtraction_values titleOnChange_def initialForm_def)
qed

subsection \<open>Merging twice\<close>

text \<open>
  C9. Merging the same analysis result twice in a row leaves the form (values and flags)
  as merging it once does. This holds from every form state, so in particular from the
  states in which the user has confirmed no field; running the whole handler twice on
  the same document also gives the state of running it once.
\<close>

theorem applyExtraction_idempotent:
  "applyExtraction r (applyExtraction r f) = applyExtraction r f
   \<and> handleAnalyzeJD (handleAnalyzeJD f) = handleAnalyzeJD f"
proof
  show "applyExtraction r (applyExtraction r f) = applyExtraction r f"
    by (rule applyExtraction_twice)
  show "handleAnalyzeJD (handleAnalyzeJD f) = handleAnalyzeJD f"
  proof (cases "length (jobDescription f) < 100")
    case True
    then show ?thesis by (simp add: handleAnalyzeJD_def)
  next
    case long: False
    show ?thesis
    proof (cases "analyzeJobDescription (jobDescription f)")
      case (Inl e)
      with long show ?thesis by (simp add: handleAnalyzeJD_def)
    next
      case (Inr r)
      define g where "g = handleAnalyzeJD f"
      from long Inr have g: "g = (applyExtraction r (f\<lparr>error := []\<rparr>))\<lparr>hasAnalyzed := True, isAnalyzing := False\<rparr>"
        by (simp add: g_def handleAnalyzeJD_def)
      then have "jobDescription g = jobDescription f"
        by (simp add: applyExtraction_others)
      with long Inr have "handleAnalyzeJD g =
          (applyExtraction r (g\<lparr>error := []\<rparr>))\<lparr>hasAnalyzed := True, isAnalyzing := False\<rparr>"
        by (simp add: handleAnalyzeJD_def)
      also have "\<dots> = g"
        unfolding g
        by (rule form.equality)
          (simp_all add: applyExtraction_values applyExtraction_flags applyExtraction_others split: option.splits)
      finally show ?thesis by (simp add: g_def)
    qed
  qed
qed

subsection \<open>Validation at submission\<close>




text \<open>
  C4 (as amended). The submission rejects the document as too short exactly when its
  length before trimming is below 100 or it is empty after trimming, that is, when it
  consists of white space only (the no-break space included). Every document rejected has fewer than 100 characters
  after trimming; a document of at least 100 characters that keeps between 1 and 99 of
  them after trimming passes this check.
\<close>

theorem description_check:
  "(handleSubmit f = Inl description_message) =
     (length (jobDescription f) < 100 \<or> list_all isSpaceChar (jobDescription f))
   \<and> (handleSubmit f = Inl description_message \<longrightarrow> length (trim (jobDescription f)) < 100)"
proof -
  have a: "(handleSubmit f = Inl description_message) =
     (length (jobDescription f) < 100 \<or> list_all isSpaceChar (jobDescription f))"
    by (auto simp add: handleSubmit_description description_invalid_def trim_empty_iff)
  have "length (trim (jobDescription f)) < 100" if "handleSubmit f = Inl description_message"
  proof -
    from that a have "length (jobDescription f) < 100 \<or> trim (jobDescription f) = []"
      by (simp add: trim_empty_iff)
    then show ?thesis
      using length_trim_le [of "jobDescription f"] by auto
  qed
  with a show ?thesis by blast
qed

theorem description_check_witness:
  "handleSubmit (initialForm\<lparr>jobDescription := ''Too short''\<rparr>) = Inl description_message
   \<and> length (trim ''Too short'') < 100
   \<and> handleSubmit (initialForm\<lparr>jobDescription := replicate 100 (CHR 0xA0)\<rparr>) = Inl description_message"
  using description_check [of "initialForm\<lparr>jobDescription := ''Too short''\<rparr>"]
    description_check [of "initialForm\<lparr>jobDescription := replicate 100 (CHR 0xA0)\<rparr>"]
  by (simp add: initialForm_def list_all_iff isSpaceChar_Char)

text \<open>The claim as the specification words it fails: 50 letters followed by 50 spaces
  are 100 characters before trimming and 50 after, and the form is submitted.\<close>

theorem trimmed_length_counterexample:
  "length (jobDescription paddedForm) = 100
   \<and> length (trim (jobDescription paddedForm)) = 50
   \<and> handleSubmit paddedForm =
       Inr \<lparr> job_title = ''Intern'', job_requiredSkills = [''React''], job_locationLabel = ''Pune'',
             job_intake = 1, job_stipend = None, job_perks = None,
             job_originalJD = replicate 50 CHR ''a'' \<rparr>"
  by code_simp

section \<open>The analysis and the form together\<close>

text \<open>
  C10. For every document the analysis returns a result with a non-empty title and an
  intake of at least 1. Both are therefore truthy, and the merge writes them over the
  title and the intake of the form and flags both as suggested, whatever the form held
  before; so does every run of the handler on a document of at least 100 characters.
\<close>

theorem title_and_intake_always_merged:
  "\<exists>r n. analyzeJobDescription jd = Inr r \<and> result_title r \<noteq> [] \<and> result_intake r = Num n \<and> 1 \<le> n \<and>
     title (applyExtraction r f) = result_title r \<and> titleSuggested (applyExtraction r f) \<and>
     intake (applyExtraction r f) = numberToString (Num n) \<and> intakeSuggested (applyExtraction r f) \<and>
     (jobDescription g = jd \<and> 100 \<le> length jd \<longrightarrow>
        title (handleAnalyzeJD g) = result_title r \<and> titleSuggested (handleAnalyzeJD g) \<and>
        intake (handleAnalyzeJD g) = numberToString (Num n) \<and> intakeSuggested (handleAnalyzeJD g))"
proof -
  obtain r where r: "analyzeJobDescription jd = Inr r" "extract_title jd = Inr (result_title r)"
    "result_intake r = minNumber (extract_intake jd) 100"
    using analysis_result [of jd] by blast
  obtain t where "extract_title jd = Inr t" "t \<noteq> []"
    using extract_title_ok [of jd] by blast
  with r(2) have t: "result_title r \<noteq> []" by simp
  obtain k where k: "extract_intake jd = Num k" "1 \<le> k"
    using extract_intake_ok [of jd] by blast
  let ?n = "min k 100"
  from r(3) k(1) have n: "result_intake r = Num ?n" by (simp add: minNumber_def)
  from k(2) have n1: "1 \<le> ?n" by simp
  then have tr: "truthyNumber (result_intake r)" by (simp add: n truthyNumber_def)
  have merge: "title (applyExtraction r h) = result_title r \<and> titleSuggested (applyExtraction r h) \<and>
     intake (applyExtraction r h) = numberToString (Num ?n) \<and> intakeSuggested (applyExtraction r h)" for h
    using t tr by (simp add: applyExtraction_values applyExtraction_flags n)
  have run: "title (handleAnalyzeJD g) = result_title r \<and> titleSuggested (handleAnalyzeJD g) \<and>
        intake (handleAnalyzeJD g) = numberToString (Num ?n) \<and> intakeSuggested (handleAnalyzeJD g)"
    if "jobDescription g = jd" "100 \<le> length jd"
  proof -
    from that r(1) have "handleAnalyzeJD g =
        (applyExtraction r (g\<lparr>error := []\<rparr>))\<lparr>hasAnalyzed := True, isAnalyzing := False\<rparr>"
      by (simp add: handleAnalyzeJD_def)
    with merge [of "g\<lparr>error := []\<rparr>"] show ?thesis by simp
  qed
  from r(1) t n n1 merge [of f] run show ?thesis
    by (intro exI [of _ r] exI [of _ ?n]) blast
qed

text \<open>A form whose title and intake the user has typed, and a document without any title
  or intake phrase: the handler replaces both.\<close>

theorem title_and_intake_always_merged_witness:
  "100 \<le> length ''Our studio wants help with brand design and marketing campaigns this summer; students of any year are welcome to apply.''
   \<and> title (handleAnalyzeJD (intakeOnChange ''7'' (titleOnChange ''Brand helper''
        (initialForm\<lparr>jobDescription := ''Our studio wants help with brand design and marketing campaigns this summer; students of any year are welcome to apply.''\<rparr>))))
       = ''Marketing Intern''
   \<and> intake (handleAnalyzeJD (intakeOnChange ''7'' (titleOnChange ''Brand helper''
        (initialForm\<lparr>jobDescription := ''Our studio wants help with brand design and marketing campaigns this summer; students of any year are welcome to apply.''\<rparr>))))
       = ''1''"
proof -
  let ?doc = "''Our studio wants help with brand design and marketing campaigns this summer; students of any year are welcome to apply.''"
  let ?g = "intakeOnChange ''7'' (titleOnChange ''Brand helper'' (initialForm\<lparr>jobDescription := ?doc\<rparr>))"
  have len: "100 \<le> length ?doc" by simp
  have jd: "jobDescription ?g = ?doc"
    by (simp add: intakeOnChange_def titleOnChange_def)
  from title_and_intake_always_merged [of ?doc initialForm ?g]
  obtain r n where r: "analyzeJobDescription ?doc = Inr r" "result_intake r = Num n"
    and run: "jobDescription ?g = ?doc \<and> 100 \<le> length ?doc \<longrightarrow>
        title (handleAnalyzeJD ?g) = result_title r \<and> titleSuggested (handleAnalyzeJD ?g) \<and>
        intake (handleAnalyzeJD ?g) = numberToString (Num n) \<and> intakeSuggested (handleAnalyzeJD ?g)"
    by blast
  from run jd len have h: "title (handleAnalyzeJD ?g) = result_title r"
    "intake (handleAnalyzeJD ?g) = numberToString (Num n)" by blast+
  obtain r' where r': "analyzeJobDescription ?doc = Inr r'" "extract_title ?doc = Inr (result_title r')"
    "result_intake r' = minNumber (extract_intake ?doc) 100"
    using analysis_result [of ?doc] by blast
  from r(1) r'(1) have same: "r' = r" by simp
  from r'(2) title_posting have "result_title r = ''Marketing Intern''"
    unfolding same by simp
  moreover from r'(3) intake_posting r(2) have "n = 1"
    unfolding same by (simp add: minNumber_def)
  moreover have "numberToString (Num 1) = ''1''"
    by (simp add: numberToString_def char_of_def bit_Suc_0_iff)
  ultimately show ?thesis using h len by simp
qed

end
